theory Spec2Isabelle
  imports Main
begin

section \<open>Consultation sessions: the data model\<close>

text \<open>
  The session document of \<^verbatim>\<open>models/ConsultationSession.model\<close> (the flexible-duration
  schema with extensions). JavaScript numbers are modelled as integers; a \<^verbatim>\<open>Date\<close> is its
  \<^verbatim>\<open>getTime()\<close> value, milliseconds since the epoch; an optional field is an \<open>option\<close>.
  A method that reads the clock takes the instant \<open>now\<close> as a parameter: the clock reads
  of one invocation (\<^verbatim>\<open>new Date()\<close>, \<^verbatim>\<open>Date.now()\<close>) are taken to return the same
  millisecond.
\<close>

type_synonym time = int

text \<open>
  The status strings of the session schemas: \<^verbatim>\<open>pending, active, expired, completed, cancelled\<close>
  in \<^verbatim>\<open>ConsultationSession.model\<close>; \<^verbatim>\<open>ended\<close> in the schema of
  \<^verbatim>\<open>models/ConsultationSession.ts\<close>.
\<close>

datatype session_status = Pending | Active | Expired | Ended | Completed | Cancelled

datatype payment_status = PayPending | PayCompleted | PayFailed | PayRefunded

record extension =
  extendedAt :: time
  additionalHours :: int
  additionalAmount :: int
  extPaymentReference :: string
  newExpiresAt :: time

record session =
  sid :: string
  professionalId :: string
  clientId :: string
  clientUsername :: string
  paymentStatus :: payment_status
  paymentAmount :: int
  paymentReference :: string
  paidAt :: "time option"
  status :: session_status
  selectedDuration :: int
  currentDuration :: int
  durationHours :: int
  pricePerHour :: int
  minimumDuration :: int
  startedAt :: "time option"
  endsAt :: "time option"
  expiresAt :: "time option"
  isExtended :: bool
  extensionCount :: int
  extensions :: "extension list"
  lastMessageAt :: "time option"
  hasUnreadMessages :: bool
  messageCount :: int
  sessionToken :: string

text \<open>The errors thrown by the schema methods, one constructor per message.\<close>

datatype session_error =
    PaymentMustBeCompleted
  | OnlyActiveCanBeExtended
  | ExtensionAtLeastOneHour

section \<open>The schema methods\<close>

definition isExpired :: "time \<Rightarrow> session \<Rightarrow> bool" where
  "isExpired now s = (case expiresAt s of None \<Rightarrow> False | Some e \<Rightarrow> now > e)"

definition isActive :: "time \<Rightarrow> session \<Rightarrow> bool" where
  "isActive now s =
     (status s = Active \<and> paymentStatus s = PayCompleted \<and> \<not> isExpired now s)"

definition getRemainingTime :: "time \<Rightarrow> session \<Rightarrow> int" where
  "getRemainingTime now s =
     (case expiresAt s of None \<Rightarrow> 0 | Some e \<Rightarrow> max 0 (e - now))"

definition startSession :: "time \<Rightarrow> session \<Rightarrow> session_error + session" where
  "startSession now s =
     (if paymentStatus s \<noteq> PayCompleted then Inl PaymentMustBeCompleted
      else Inr (s\<lparr>status := Active,
                  startedAt := Some now,
                  expiresAt := Some (now + currentDuration s),
                  endsAt := Some (now + currentDuration s)\<rparr>))"

text \<open>
  \<^verbatim>\<open>this.expiresAt?.getTime() || Date.now()\<close>: the clock is used when the expiry is unset and
  also when its time value is the falsy number 0.
\<close>

definition expiryOrNow :: "time \<Rightarrow> session \<Rightarrow> time" where
  "expiryOrNow now s =
     (case expiresAt s of None \<Rightarrow> now | Some e \<Rightarrow> if e = 0 then now else e)"

definition extendSession ::
  "time \<Rightarrow> int \<Rightarrow> string \<Rightarrow> session \<Rightarrow> session_error + session" where
  "extendSession now hours reference s =
     (if status s \<noteq> Active then Inl OnlyActiveCanBeExtended
      else if hours < 1 then Inl ExtensionAtLeastOneHour
      else
        let additionalMs = hours * 3600000;
            amount = hours * pricePerHour s;
            newExpiry = expiryOrNow now s + additionalMs
        in Inr (s\<lparr>extensions := extensions s @
                      [\<lparr>extendedAt = now, additionalHours = hours,
                        additionalAmount = amount, extPaymentReference = reference,
                        newExpiresAt = newExpiry\<rparr>],
                    isExtended := True,
                    extensionCount := extensionCount s + 1,
                    currentDuration := currentDuration s + additionalMs,
                    expiresAt := Some newExpiry,
                    endsAt := Some newExpiry,
                    paymentAmount := paymentAmount s + amount\<rparr>))"


section \<open>The document store\<close>

text \<open>
  The collections the consultation controllers touch. A document is found by the first
  match of a query; \<^verbatim>\<open>save()\<close> on a loaded document writes it over the stored document
  with the same \<^verbatim>\<open>_id\<close>. Identifiers are strings; looking up an identifier that no
  document has answers null (for a string that is no ObjectId the driver raises a cast
  error instead, which every handler turns into a failure reply without a write).
\<close>

record client =
  clientDocId :: string
  username :: string
  totalSessions :: int
  activeSessions :: int

record review =
  reviewProfessionalId :: string
  reviewSessionId :: string
  clientName :: string
  rating :: int
  comment :: "string option"

record store =
  sessions :: "session list"
  clients :: "client list"
  reviews :: "review list"

definition findById :: "string \<Rightarrow> store \<Rightarrow> session option" where
  "findById i db = find (\<lambda>s. sid s = i) (sessions db)"

definition findByPaymentReference :: "string \<Rightarrow> store \<Rightarrow> session option" where
  "findByPaymentReference r db = find (\<lambda>s. paymentReference s = r) (sessions db)"

definition findBySessionToken :: "string \<Rightarrow> store \<Rightarrow> session option" where
  "findBySessionToken t db = find (\<lambda>s. sessionToken s = t) (sessions db)"

definition findClientById :: "string \<Rightarrow> store \<Rightarrow> client option" where
  "findClientById i db = find (\<lambda>c. clientDocId c = i) (clients db)"

definition saveSession :: "session \<Rightarrow> store \<Rightarrow> store" where
  "saveSession s db =
     db\<lparr>sessions := map (\<lambda>t. if sid t = sid s then s else t) (sessions db)\<rparr>"

text \<open>
  Inserting a new session: the unique indexes on \<^verbatim>\<open>paymentReference\<close> and
  \<^verbatim>\<open>sessionToken\<close> (and the \<^verbatim>\<open>_id\<close>) reject a document that repeats a stored value.
\<close>

definition insertSession :: "session \<Rightarrow> store \<Rightarrow> store option" where
  "insertSession s db =
     (if \<exists>t \<in> set (sessions db).
           sid t = sid s \<or> paymentReference t = paymentReference s \<or>
           sessionToken t = sessionToken s
      then None
      else Some (db\<lparr>sessions := sessions db @ [s]\<rparr>))"

definition deleteSession :: "session \<Rightarrow> store \<Rightarrow> store" where
  "deleteSession s db = db\<lparr>sessions := filter (\<lambda>t. sid t \<noteq> sid s) (sessions db)\<rparr>"

text \<open>\<^verbatim>\<open>findByIdAndUpdate(id, {$inc: {totalSessions: a, activeSessions: b}})\<close>.\<close>

definition incClientSessions :: "string \<Rightarrow> int \<Rightarrow> int \<Rightarrow> store \<Rightarrow> store" where
  "incClientSessions i a b db =
     (case findClientById i db of
        None \<Rightarrow> db
      | Some c \<Rightarrow>
          db\<lparr>clients :=
               map (\<lambda>d. if clientDocId d = i
                        then d\<lparr>totalSessions := totalSessions d + a,
                               activeSessions := activeSessions d + b\<rparr>
                        else d) (clients db)\<rparr>)"

section \<open>Strings\<close>

definition startsWith :: "string \<Rightarrow> string \<Rightarrow> bool" where
  "startsWith p s = (take (length p) s = p)"

text \<open>\<^verbatim>\<open>s.split(c)\<close> for a one-character separator.\<close>

fun splitOn :: "char \<Rightarrow> string \<Rightarrow> string list" where
  "splitOn c [] = [[]]"
| "splitOn c (x # xs) =
     (if x = c then [] # splitOn c xs
      else (case splitOn c xs of
              [] \<Rightarrow> [[x]]
            | w # ws \<Rightarrow> (x # w) # ws))"

text \<open>\<^verbatim>\<open>s.replace(p, '')\<close>: the first occurrence of the pattern is removed.\<close>

fun removeFirst :: "string \<Rightarrow> string \<Rightarrow> string" where
  "removeFirst p [] = []"
| "removeFirst p (x # xs) =
     (if startsWith p (x # xs) then drop (length p) (x # xs) else x # removeFirst p xs)"

section \<open>The consultation payment controller\<close>

record reply =
  httpCode :: nat
  success :: bool
  message :: string

definition internalError :: reply where
  "internalError = \<lparr>httpCode = 500, success = False, message = ''Internal server error''\<rparr>"

definition MINIMUM_HOURS :: int where
  "MINIMUM_HOURS = 1"

definition MAXIMUM_HOURS :: int where
  "MAXIMUM_HOURS = 8"

definition DEFAULT_PRICE_PER_HOUR :: int where
  "DEFAULT_PRICE_PER_HOUR = 5000"

text \<open>
  A signed token is modelled by its claims: the payload object as a list of keys and
  values, and the two timestamps \<^verbatim>\<open>jwt.sign\<close> adds, \<^verbatim>\<open>iat\<close> (the clock in whole
  seconds) and \<^verbatim>\<open>exp = iat + expiresIn\<close>. The encoding of the claims as a string is
  a parameter \<open>sign\<close> of the functions that mint a token, and the decoding of a string
  whose signature is good a parameter \<open>decode\<close> of the function that verifies one.
\<close>

record jwt =
  payload :: "(string \<times> string) list"
  iat :: int
  exp :: int

definition jwtSign :: "time \<Rightarrow> (string \<times> string) list \<Rightarrow> int \<Rightarrow> jwt" where
  "jwtSign now p expiresIn =
     \<lparr>payload = p, iat = now div 1000, exp = now div 1000 + expiresIn\<rparr>"

text \<open>The seconds of \<^verbatim>\<open>'7d'\<close> and of \<^verbatim>\<open>'25h'\<close>.\<close>

definition sevenDays :: int where
  "sevenDays = 7 * 24 * 60 * 60"

definition twentyFiveHours :: int where
  "twentyFiveHours = 25 * 60 * 60"

definition bookingTokenClaims :: "time \<Rightarrow> client \<Rightarrow> string \<Rightarrow> jwt" where
  "bookingTokenClaims now c prof =
     jwtSign now
       [(''clientId'', clientDocId c), (''username'', username c),
        (''professionalId'', prof), (''type'', ''consultation_session'')]
       sevenDays"

text \<open>
  The request body of a booking. A missing field and a falsy one (the empty string, the
  number 0) take the same branch of the handler, so a field is a plain string or integer.
\<close>

record booking_request =
  reqProfessionalId :: string
  reqClientId :: string
  reqDurationHours :: int
  reqEmail :: string

text \<open>
  What a booking draws from outside: the fresh \<^verbatim>\<open>_id\<close> of the new document, the uuid of
  the reference, and the gateway's answer to the initialisation (\<open>None\<close>: the request
  raises).
\<close>

record booking_env =
  freshId :: string
  uuid :: string
  gatewayInit :: "bool option"

definition newSession ::
  "booking_request \<Rightarrow> booking_env \<Rightarrow> client \<Rightarrow> string \<Rightarrow> session" where
  "newSession rq env c tok =
     \<lparr>sid = freshId env, professionalId = reqProfessionalId rq,
      clientId = clientDocId c, clientUsername = username c,
      paymentStatus = PayPending,
      paymentAmount = DEFAULT_PRICE_PER_HOUR * reqDurationHours rq,
      paymentReference = ''CONSULT_'' @ uuid env,
      paidAt = None, status = Pending,
      selectedDuration = reqDurationHours rq * 3600000,
      currentDuration = reqDurationHours rq * 3600000,
      durationHours = reqDurationHours rq,
      pricePerHour = DEFAULT_PRICE_PER_HOUR,
      minimumDuration = 3600000,
      startedAt = None, endsAt = None, expiresAt = None,
      isExtended = False, extensionCount = 0, extensions = [],
      lastMessageAt = None, hasUnreadMessages = False, messageCount = 0,
      sessionToken = tok\<rparr>"

definition initializeConsultationPayment ::
  "(jwt \<Rightarrow> string) \<Rightarrow> time \<Rightarrow> booking_env \<Rightarrow> booking_request \<Rightarrow> store
     \<Rightarrow> reply \<times> store" where
  "initializeConsultationPayment sign now env rq db =
     (if reqProfessionalId rq = [] \<or> reqClientId rq = [] \<or> reqDurationHours rq = 0 then
        (\<lparr>httpCode = 400, success = False,
          message = ''Professional ID, client ID, and duration are required''\<rparr>, db)
      else if reqDurationHours rq < MINIMUM_HOURS then
        (\<lparr>httpCode = 400, success = False,
          message = ''Minimum consultation duration is 1 hour''\<rparr>, db)
      else if MAXIMUM_HOURS \<noteq> 0 \<and> reqDurationHours rq > MAXIMUM_HOURS then
        (\<lparr>httpCode = 400, success = False,
          message = ''Maximum consultation duration is 8 hours''\<rparr>, db)
      else
        (case findClientById (reqClientId rq) db of
           None \<Rightarrow> (\<lparr>httpCode = 404, success = False, message = ''Client not found''\<rparr>, db)
         | Some c \<Rightarrow>
             let tok = sign (bookingTokenClaims now c (reqProfessionalId rq));
                 s = newSession rq env c tok
             in (case insertSession s db of
                   None \<Rightarrow> (internalError, db)
                 | Some db' \<Rightarrow>
                     (case gatewayInit env of
                        None \<Rightarrow> (internalError, db')
                      | Some ok \<Rightarrow>
                          if \<not> ok then
                            (\<lparr>httpCode = 400, success = False,
                              message = ''Failed to initialize payment''\<rparr>,
                             deleteSession s db')
                          else
                            (\<lparr>httpCode = 200, success = True,
                              message = ''Payment initialized successfully''\<rparr>, db')))))"

text \<open>
  \<^verbatim>\<open>initializeSessionExtension\<close>: quotes an extension and opens its payment; it writes
  nothing. \<open>gw\<close> is the gateway's answer to the initialisation.
\<close>

definition initializeSessionExtension ::
  "time \<Rightarrow> bool option \<Rightarrow> string \<Rightarrow> int \<Rightarrow> store \<Rightarrow> reply \<times> store" where
  "initializeSessionExtension now gw sessionId hours db =
     (if sessionId = [] \<or> hours = 0 then
        (\<lparr>httpCode = 400, success = False,
          message = ''Session ID and additional hours are required''\<rparr>, db)
      else if hours < 1 then
        (\<lparr>httpCode = 400, success = False,
          message = ''Extension must be at least 1 hour''\<rparr>, db)
      else
        (case findById sessionId db of
           None \<Rightarrow> (\<lparr>httpCode = 404, success = False, message = ''Session not found''\<rparr>, db)
         | Some s \<Rightarrow>
             if status s \<noteq> Active then
               (\<lparr>httpCode = 400, success = False,
                 message = ''Only active sessions can be extended''\<rparr>, db)
             else if isExpired now s then
               (\<lparr>httpCode = 400, success = False,
                 message = ''Cannot extend expired session. Please start a new consultation.''\<rparr>,
                db)
             else
               (case gw of
                  None \<Rightarrow> (internalError, db)
                | Some ok \<Rightarrow>
                    if \<not> ok then
                      (\<lparr>httpCode = 400, success = False,
                        message = ''Failed to initialize extension payment''\<rparr>, db)
                    else
                      (\<lparr>httpCode = 200, success = True,
                        message = ''Extension payment initialized''\<rparr>, db))))"

text \<open>
  The gateway's answer to \<^verbatim>\<open>transaction/verify\<close>: the two status fields, the payment
  instant and the \<^verbatim>\<open>additionalHours\<close> of the metadata when it carries one.
\<close>

record verification =
  gwStatus :: bool
  gwSuccess :: bool
  gwPaidAt :: time
  gwAdditionalHours :: "int option"

text \<open>\<^verbatim>\<open>metadata.metadata?.additionalHours || 1\<close>.\<close>

definition hoursOrOne :: "verification \<Rightarrow> int" where
  "hoursOrOne v =
     (case gwAdditionalHours v of None \<Rightarrow> 1 | Some h \<Rightarrow> if h = 0 then 1 else h)"

text \<open>The session an \<^verbatim>\<open>EXTEND_\<close> reference names: \<^verbatim>\<open>reference.split('_')[1]\<close>.\<close>

definition extensionSessionId :: "string \<Rightarrow> string option" where
  "extensionSessionId reference =
     (case splitOn (CHR ''_'') reference of
        _ # i # _ \<Rightarrow> Some i
      | _ \<Rightarrow> None)"

definition sessionOfReference :: "string \<Rightarrow> store \<Rightarrow> session option" where
  "sessionOfReference reference db =
     (if startsWith ''EXTEND_'' reference then
        (case extensionSessionId reference of
           None \<Rightarrow> None
         | Some i \<Rightarrow> findById i db)
      else findByPaymentReference reference db)"

text \<open>
  \<^verbatim>\<open>verifyConsultationPayment\<close>. \<open>gw\<close> is the gateway: its answer for a reference, or
  \<open>None\<close> when the request raises. An error thrown by a schema method is caught by the
  handler, which answers 500 and has written nothing.
\<close>

definition verifyConsultationPayment ::
  "time \<Rightarrow> (string \<Rightarrow> verification option) \<Rightarrow> string \<Rightarrow> store \<Rightarrow> reply \<times> store" where
  "verifyConsultationPayment now gw reference db =
     (if reference = [] then
        (\<lparr>httpCode = 400, success = False, message = ''Payment reference is required''\<rparr>, db)
      else
        (case sessionOfReference reference db of
           None \<Rightarrow> (\<lparr>httpCode = 404, success = False, message = ''Session not found''\<rparr>, db)
         | Some s \<Rightarrow>
             (case gw reference of
                None \<Rightarrow> (internalError, db)
              | Some v \<Rightarrow>
                  if \<not> gwStatus v \<or> \<not> gwSuccess v then
                    (\<lparr>httpCode = 400, success = False,
                      message = ''Payment verification failed''\<rparr>, db)
                  else if startsWith ''EXTEND_'' reference then
                    (case extendSession now (hoursOrOne v) reference s of
                       Inl e \<Rightarrow> (internalError, db)
                     | Inr s' \<Rightarrow>
                         (\<lparr>httpCode = 200, success = True,
                           message = ''Session extended successfully''\<rparr>,
                          saveSession s' db))
                  else if paymentStatus s = PayCompleted then
                    (\<lparr>httpCode = 200, success = True,
                      message = ''Payment already verified''\<rparr>, db)
                  else
                    (case startSession now
                            (s\<lparr>paymentStatus := PayCompleted, paidAt := Some (gwPaidAt v)\<rparr>) of
                       Inl e \<Rightarrow> (internalError, db)
                     | Inr s' \<Rightarrow>
                         (\<lparr>httpCode = 200, success = True,
                           message = ''Payment verified and session activated''\<rparr>,
                          incClientSessions (clientId s') 1 1 (saveSession s' db))))))"

text \<open>
  \<^verbatim>\<open>getSessionStatus\<close>. The token is the \<^verbatim>\<open>authorization\<close> header with its first
  \<^verbatim>\<open>'Bearer '\<close> removed. The reply carries the fields of the session the claims read.
\<close>

record status_data =
  sdStatus :: session_status
  sdPaymentStatus :: payment_status
  sdStartedAt :: "time option"
  sdExpiresAt :: "time option"
  sdRemainingTime :: int
  sdIsActive :: bool
  sdIsExtended :: bool
  sdExtensionCount :: int

definition statusData :: "time \<Rightarrow> session \<Rightarrow> status_data" where
  "statusData now s =
     \<lparr>sdStatus = status s, sdPaymentStatus = paymentStatus s,
      sdStartedAt = startedAt s, sdExpiresAt = expiresAt s,
      sdRemainingTime = getRemainingTime now s, sdIsActive = isActive now s,
      sdIsExtended = isExtended s, sdExtensionCount = extensionCount s\<rparr>"

definition bearerToken :: "string option \<Rightarrow> string" where
  "bearerToken h = (case h of None \<Rightarrow> [] | Some a \<Rightarrow> removeFirst ''Bearer '' a)"

definition getSessionStatus ::
  "time \<Rightarrow> string \<Rightarrow> string option \<Rightarrow> store \<Rightarrow> (reply \<times> status_data option) \<times> store" where
  "getSessionStatus now sessionId authorization db =
     (if bearerToken authorization = [] then
        ((\<lparr>httpCode = 401, success = False, message = ''Session token required''\<rparr>, None), db)
      else
        (case findById sessionId db of
           None \<Rightarrow>
             ((\<lparr>httpCode = 404, success = False, message = ''Session not found''\<rparr>, None), db)
         | Some s \<Rightarrow>
             if sessionToken s \<noteq> bearerToken authorization then
               ((\<lparr>httpCode = 403, success = False, message = ''Invalid session token''\<rparr>, None),
                db)
             else if isExpired now s \<and> status s = Active then
               ((\<lparr>httpCode = 200, success = True, message = []\<rparr>,
                 Some (statusData now (s\<lparr>status := Expired\<rparr>))),
                incClientSessions (clientId s) 0 (- 1) (saveSession (s\<lparr>status := Expired\<rparr>) db))
             else
               ((\<lparr>httpCode = 200, success = True, message = []\<rparr>, Some (statusData now s)),
                db)))"

section \<open>The client session token of \<^verbatim>\<open>consultationUtils\<close>\<close>

definition clientSessionClaims :: "time \<Rightarrow> string \<Rightarrow> string \<Rightarrow> jwt" where
  "clientSessionClaims now sessionId clientAnonymousId =
     jwtSign now
       [(''sessionId'', sessionId), (''clientAnonymousId'', clientAnonymousId),
        (''type'', ''client_session'')]
       twentyFiveHours"

definition generateClientSessionToken ::
  "(jwt \<Rightarrow> string) \<Rightarrow> time \<Rightarrow> string \<Rightarrow> string \<Rightarrow> string" where
  "generateClientSessionToken sign now sessionId clientAnonymousId =
     sign (clientSessionClaims now sessionId clientAnonymousId)"

text \<open>
  \<^verbatim>\<open>jwt.verify\<close> raises on a bad signature (\<open>decode\<close> answers \<open>None\<close>) and on a token
  whose \<^verbatim>\<open>exp\<close> the clock, in whole seconds, has reached.
\<close>

definition jwtVerify :: "(string \<Rightarrow> jwt option) \<Rightarrow> time \<Rightarrow> string \<Rightarrow> jwt option" where
  "jwtVerify decode now token =
     (case decode token of
        None \<Rightarrow> None
      | Some c \<Rightarrow> if now div 1000 \<ge> exp c then None else Some c)"

definition field :: "jwt \<Rightarrow> string \<Rightarrow> string" where
  "field c k = (case map_of (payload c) k of None \<Rightarrow> [] | Some v \<Rightarrow> v)"

definition verifyClientSessionToken ::
  "(string \<Rightarrow> jwt option) \<Rightarrow> time \<Rightarrow> string \<Rightarrow> (string \<times> string) option" where
  "verifyClientSessionToken decode now token =
     (case jwtVerify decode now token of
        None \<Rightarrow> None
      | Some c \<Rightarrow>
          if map_of (payload c) ''type'' \<noteq> Some ''client_session'' then None
          else Some (field c ''sessionId'', field c ''clientAnonymousId''))"

section \<open>Reviews\<close>

text \<open>
  \<^verbatim>\<open>submitReview\<close> of the professional controller. The request is the path parameter
  and the body; the schema of the body is checked first. The running average that
  \<^verbatim>\<open>updateRating\<close> keeps on the professional's profile is floating point and is not part
  of the model; it touches neither sessions nor reviews.

  The session is queried by \<^verbatim>\<open>_id\<close> and \<^verbatim>\<open>professionalId\<close>, which the session schema
  types as ObjectId: the query casts the two request strings to ObjectIds before it
  compares them, and raises a cast error for a string that spells none. The cast is the
  parameter \<open>cast\<close>; it answers the canonical spelling of the id, which is what \<open>sid\<close> and
  \<open>professionalId\<close> of a stored session hold. The review schema types \<^verbatim>\<open>sessionId\<close> and
  \<^verbatim>\<open>professionalId\<close> as String: a review is looked up and stored under the request's
  strings as they were written.
\<close>

record review_request =
  rrProfessionalId :: string
  rrSessionId :: string
  rrSessionToken :: string
  rrClientName :: string
  rrRating :: int
  rrComment :: "string option"

datatype review_error =
    ValidationFailed
  | CastFailed
  | InvalidSession
  | OnlyAfterSessionEnded
  | AlreadyReviewed

definition reviewSchemaOk :: "review_request \<Rightarrow> bool" where
  "reviewSchemaOk rq =
     (length (rrSessionId rq) \<ge> 1 \<and> length (rrSessionToken rq) \<ge> 1 \<and>
      length (rrClientName rq) \<ge> 2 \<and> 1 \<le> rrRating rq \<and> rrRating rq \<le> 5 \<and>
      (case rrComment rq of None \<Rightarrow> True | Some c \<Rightarrow> length c \<le> 1000))"

text \<open>\<^verbatim>\<open>findOne({_id, sessionToken, professionalId})\<close>, on the ids the cast has answered.\<close>

definition findReviewedSession :: "string \<Rightarrow> string \<Rightarrow> string \<Rightarrow> store \<Rightarrow> session option" where
  "findReviewedSession i token p db =
     find (\<lambda>s. sid s = i \<and> sessionToken s = token \<and> professionalId s = p) (sessions db)"

definition findReview :: "string \<Rightarrow> store \<Rightarrow> review option" where
  "findReview i db = find (\<lambda>r. reviewSessionId r = i) (reviews db)"

definition submitReview ::
  "(string \<Rightarrow> string option) \<Rightarrow> review_request \<Rightarrow> store
     \<Rightarrow> review_error + (review \<times> store)" where
  "submitReview cast rq db =
     (if \<not> reviewSchemaOk rq then Inl ValidationFailed
      else
        (case cast (rrSessionId rq) of
           None \<Rightarrow> Inl CastFailed
         | Some i \<Rightarrow>
             (case cast (rrProfessionalId rq) of
                None \<Rightarrow> Inl CastFailed
              | Some p \<Rightarrow>
                  (case findReviewedSession i (rrSessionToken rq) p db of
                     None \<Rightarrow> Inl InvalidSession
                   | Some s \<Rightarrow>
                       if status s \<noteq> Expired then Inl OnlyAfterSessionEnded
                       else
                         (case findReview (rrSessionId rq) db of
                            Some r \<Rightarrow> Inl AlreadyReviewed
                          | None \<Rightarrow>
                              let r = \<lparr>reviewProfessionalId = rrProfessionalId rq,
                                       reviewSessionId = rrSessionId rq,
                                       clientName = rrClientName rq,
                                       rating = rrRating rq,
                                       comment = rrComment rq\<rparr>
                              in Inr (r, db\<lparr>reviews := reviews db @ [r]\<rparr>))))))"

text \<open>
  The cast on the strings the examples use: 24 hexadecimal digits, in either case,
  spell the ObjectId whose canonical spelling has them in lower case.
\<close>

definition isHexDigit :: "char \<Rightarrow> bool" where
  "isHexDigit c = (c \<in> set ''0123456789abcdefABCDEF'')"

definition lowerHex :: "char \<Rightarrow> char" where
  "lowerHex c =
     (if c = CHR ''A'' then CHR ''a'' else if c = CHR ''B'' then CHR ''b''
      else if c = CHR ''C'' then CHR ''c'' else if c = CHR ''D'' then CHR ''d''
      else if c = CHR ''E'' then CHR ''e'' else if c = CHR ''F'' then CHR ''f''
      else c)"

definition hexObjectId :: "string \<Rightarrow> string option" where
  "hexObjectId x =
     (if length x = 24 \<and> list_all isHexDigit x then Some (map lowerHex x) else None)"

section \<open>The real-time channel\<close>

text \<open>
  A handler of the socket server is modelled by the effects it performs, in program
  order: the writes to the collections, the room it makes a socket join, and the events
  it emits with the set of sockets that receive each. \<^verbatim>\<open>io.to(room).emit\<close> reaches every
  socket joined to the room; \<^verbatim>\<open>socket.to(room).emit\<close> reaches every socket of the room
  but the sending one; \<^verbatim>\<open>socket.emit\<close> reaches the socket alone.
\<close>

datatype sender_type = Client | Professional

record chat =
  chatSessionId :: string
  senderId :: string
  senderType :: sender_type
  content :: string
  isRead :: bool
  createdAt :: time

record message_data =
  mdSessionId :: string
  mdMessage :: string
  mdSenderType :: sender_type
  mdTimestamp :: time

datatype body =
    ErrorBody string
  | JoinedBody string string "time option"
  | ChatBody chat
  | DataBody message_data
  | SignalBody string

datatype action =
    InsertMessage chat
  | SaveSession session
  | JoinRoom string string
  | Emit "string set" string body

type_synonym rooms = "string \<Rightarrow> string set"

definition ioTo :: "rooms \<Rightarrow> string \<Rightarrow> string set" where
  "ioTo rs room = rs room"

definition socketTo :: "rooms \<Rightarrow> string \<Rightarrow> string \<Rightarrow> string set" where
  "socketTo rs socket room = rs room - {socket}"

record hub =
  documents :: store
  chats :: "chat list"
  joined :: rooms

fun perform :: "action \<Rightarrow> hub \<Rightarrow> hub" where
  "perform (InsertMessage m) h = h\<lparr>chats := chats h @ [m]\<rparr>"
| "perform (SaveSession s) h = h\<lparr>documents := saveSession s (documents h)\<rparr>"
| "perform (JoinRoom socket room) h =
     h\<lparr>joined := (joined h)(room := insert socket (joined h room))\<rparr>"
| "perform (Emit _ _ _) h = h"

definition performAll :: "action list \<Rightarrow> hub \<Rightarrow> hub" where
  "performAll as h = fold perform as h"

definition consultationRoom :: "string \<Rightarrow> string" where
  "consultationRoom i = ''consultation:'' @ i"

text \<open>\<^verbatim>\<open>d && new Date() > d\<close> for an optional date \<open>d\<close>.\<close>

definition past :: "time \<Rightarrow> time option \<Rightarrow> bool" where
  "past now d = (case d of None \<Rightarrow> False | Some e \<Rightarrow> now > e)"

subsection \<open>The websocket service\<close>

definition activateOnJoin :: "time \<Rightarrow> session \<Rightarrow> session" where
  "activateOnJoin now s =
     s\<lparr>status := Active, startedAt := Some now,
       expiresAt := Some (now + currentDuration s)\<rparr>"

definition joinConsultation :: "time \<Rightarrow> string \<Rightarrow> string \<Rightarrow> store \<Rightarrow> action list" where
  "joinConsultation now socket token db =
     (case findBySessionToken token db of
        None \<Rightarrow> [Emit {socket} ''error'' (ErrorBody ''Invalid session token'')]
      | Some s \<Rightarrow>
          if past now (expiresAt s) then
            [Emit {socket} ''error'' (ErrorBody ''Session has expired'')]
          else
            let s' = (if status s = Pending then activateOnJoin now s else s)
            in (if status s = Pending then [SaveSession s'] else []) @
               [JoinRoom socket (consultationRoom (sid s')),
                Emit {socket} ''joined:consultation''
                  (JoinedBody (sid s') (professionalId s') (endsAt s'))])"

text \<open>
  \<^verbatim>\<open>message:send\<close>. The session interface declares \<^verbatim>\<open>addMessage\<close>, and the
  flexible-duration schema does not define it; it is the parameter \<open>addMessage\<close>, which
  answers the session document it has saved, or the message of the error it raises
  (against the flexible-duration schema as it stands, the call raises).
\<close>

definition messageSend ::
  "(message_data \<Rightarrow> session \<Rightarrow> string + session) \<Rightarrow> rooms \<Rightarrow> time \<Rightarrow> string \<Rightarrow>
     string \<Rightarrow> string \<Rightarrow> sender_type \<Rightarrow> store \<Rightarrow> action list" where
  "messageSend addMessage rs now socket token text sender db =
     (case findBySessionToken token db of
        None \<Rightarrow> [Emit {socket} ''error'' (ErrorBody ''Invalid session'')]
      | Some s \<Rightarrow>
          if past now (expiresAt s) then
            [Emit {socket} ''error'' (ErrorBody ''Session has expired'')]
          else
            let m = \<lparr>mdSessionId = sid s, mdMessage = text, mdSenderType = sender,
                     mdTimestamp = now\<rparr>
            in (case addMessage m s of
                  Inl e \<Rightarrow> [Emit {socket} ''error'' (ErrorBody e)]
                | Inr s' \<Rightarrow>
                    [SaveSession s',
                     Emit (ioTo rs (consultationRoom (sid s))) ''message:received''
                       (DataBody m)]))"

definition callSignal ::
  "rooms \<Rightarrow> string \<Rightarrow> string \<Rightarrow> string \<Rightarrow> store \<Rightarrow> action list" where
  "callSignal rs socket token signal db =
     (case findBySessionToken token db of
        None \<Rightarrow> [Emit {socket} ''error'' (ErrorBody ''Invalid session'')]
      | Some s \<Rightarrow>
          [Emit (socketTo rs socket (consultationRoom (sid s))) ''call:signal''
             (SignalBody signal)])"

subsection \<open>The socket server\<close>

record socket =
  socketId :: string
  userType :: "sender_type option"
  boundSessionId :: string
  clientAnonymousId :: string
  boundProfessionalId :: string

record handshake =
  authUserId :: string
  authSessionToken :: string
  authProfessionalId :: string

definition connect ::
  "(string \<Rightarrow> jwt option) \<Rightarrow> time \<Rightarrow> string \<Rightarrow> handshake \<Rightarrow> socket \<times> action list" where
  "connect decode now i h =
     (let userJoin = (if authUserId h \<noteq> [] then [JoinRoom i (''user:'' @ authUserId h)] else []);
          blank = \<lparr>socketId = i, userType = None, boundSessionId = [],
                   clientAnonymousId = [], boundProfessionalId = []\<rparr>
      in if authSessionToken h \<noteq> [] then
           (case verifyClientSessionToken decode now (authSessionToken h) of
              None \<Rightarrow> (blank, userJoin)
            | Some (sessionId, anon) \<Rightarrow>
                (blank\<lparr>userType := Some Client, boundSessionId := sessionId,
                        clientAnonymousId := anon\<rparr>,
                 userJoin @ [JoinRoom i (consultationRoom sessionId)]))
         else if authProfessionalId h \<noteq> [] then
           (blank\<lparr>userType := Some Professional,
                   boundProfessionalId := authProfessionalId h\<rparr>,
            userJoin @ [JoinRoom i (''professional:'' @ authProfessionalId h)])
         else (blank, userJoin))"

text \<open>
  \<^verbatim>\<open>trim()\<close> strips white space and line terminators at both ends. A character of a
  text is a code unit below 256; of the characters that \<^verbatim>\<open>trim()\<close> strips those are
  the tab, the line feed, the vertical tab, the form feed, the carriage return, the
  space and the no-break space U+00A0.
\<close>

definition isSpace :: "char \<Rightarrow> bool" where
  "isSpace c =
     (c \<in> {CHR '' '', CHR 0x09, CHR 0x0A, CHR 0x0B, CHR 0x0C, CHR 0x0D, CHR 0xA0})"

definition trim :: "string \<Rightarrow> string" where
  "trim s = rev (dropWhile isSpace (rev (dropWhile isSpace s)))"

definition senderOf :: "socket \<Rightarrow> session \<Rightarrow> string \<Rightarrow> (string \<times> sender_type) option" where
  "senderOf sock s sessionId =
     (case userType sock of
        Some Client \<Rightarrow>
          if boundSessionId sock \<noteq> sessionId then None
          else Some (clientAnonymousId sock, Client)
      | Some Professional \<Rightarrow>
          if professionalId s \<noteq> boundProfessionalId sock then None
          else Some (''professional'', Professional)
      | None \<Rightarrow> None)"

text \<open>The activation of a pending session by its first message: a fixed 24 hours.\<close>

definition activateOnMessage :: "time \<Rightarrow> session \<Rightarrow> session" where
  "activateOnMessage now s =
     s\<lparr>status := Active, startedAt := Some now,
       endsAt := Some (now + 24 * 60 * 60 * 1000)\<rparr>"

definition touchSession :: "time \<Rightarrow> sender_type \<Rightarrow> session \<Rightarrow> session" where
  "touchSession now who s =
     (let s1 = s\<lparr>lastMessageAt := Some now\<rparr>;
          s2 = (if who = Client then s1\<lparr>hasUnreadMessages := True\<rparr> else s1)
      in if status s2 = Pending then activateOnMessage now s2 else s2)"

definition consultationError :: "socket \<Rightarrow> string \<Rightarrow> action list" where
  "consultationError sock m = [Emit {socketId sock} ''consultation:error'' (ErrorBody m)]"

text \<open>
  \<^verbatim>\<open>consultation:message\<close>. The message document requires a non-empty \<^verbatim>\<open>senderId\<close>:
  its \<^verbatim>\<open>save()\<close> raises otherwise, and the handler answers that the send failed.
\<close>

definition consultationMessage ::
  "rooms \<Rightarrow> time \<Rightarrow> socket \<Rightarrow> string \<Rightarrow> string \<Rightarrow> store \<Rightarrow> action list" where
  "consultationMessage rs now sock sessionId text db =
     (if text = [] \<or> length (trim text) = 0 \<or> length text > 2000 then
        consultationError sock ''Invalid message content''
      else
        (case findById sessionId db of
           None \<Rightarrow> consultationError sock ''Session not found''
         | Some s \<Rightarrow>
             if status s \<noteq> Active \<and> status s \<noteq> Pending then
               consultationError sock ''Session is not active''
             else if past now (endsAt s) then
               consultationError sock ''Session has expired''
             else
               (case senderOf sock s sessionId of
                  None \<Rightarrow> consultationError sock ''Unauthorized''
                | Some (who, kind) \<Rightarrow>
                    if who = [] then consultationError sock ''Failed to send message''
                    else
                      let m = \<lparr>chatSessionId = sid s, senderId = who, senderType = kind,
                               content = trim text, isRead = False, createdAt = now\<rparr>
                      in [InsertMessage m,
                          SaveSession (touchSession now kind s),
                          Emit (ioTo rs (consultationRoom sessionId)) ''consultation:message''
                            (ChatBody m)])))"

definition consultationSignal ::
  "rooms \<Rightarrow> socket \<Rightarrow> string \<Rightarrow> string \<Rightarrow> store \<Rightarrow> action list" where
  "consultationSignal rs sock sessionId signal db =
     (case findById sessionId db of
        None \<Rightarrow> []
      | Some s \<Rightarrow>
          if status s \<noteq> Active then []
          else if (userType sock = Some Client \<and> boundSessionId sock = sessionId) \<or>
                  (userType sock = Some Professional \<and>
                   professionalId s = boundProfessionalId sock)
          then [Emit (socketTo rs (socketId sock) (consultationRoom sessionId))
                  ''consultation:signal'' (SignalBody signal)]
          else [])"

section \<open>Example sessions\<close>

text \<open>
  A session as \<^verbatim>\<open>initializeConsultationPayment\<close> books it for one hour at the default
  price, used as the concrete input of the examples below.
\<close>

definition bookedSession :: session where
  "bookedSession =
     \<lparr>sid = ''s1'', professionalId = ''p1'', clientId = ''c1'', clientUsername = ''anon'',
      paymentStatus = PayPending, paymentAmount = 5000, paymentReference = ''CONSULT_u1'',
      paidAt = None, status = Pending, selectedDuration = 3600000,
      currentDuration = 3600000, durationHours = 1, pricePerHour = 5000,
      minimumDuration = 3600000, startedAt = None, endsAt = None, expiresAt = None,
      isExtended = False, extensionCount = 0, extensions = [], lastMessageAt = None,
      hasUnreadMessages = False, messageCount = 0, sessionToken = ''tok1''\<rparr>"

text \<open>The same session, paid and started at instant 1000.\<close>

definition runningSession :: session where
  "runningSession =
     bookedSession\<lparr>paymentStatus := PayCompleted, paidAt := Some 1000, status := Active,
       startedAt := Some 1000, expiresAt := Some 3601000, endsAt := Some 3601000\<rparr>"

text \<open>The client of these sessions, and the stores that hold them.\<close>

definition bookedClient :: client where
  "bookedClient =
     \<lparr>clientDocId = ''c1'', username = ''anon'', totalSessions = 0, activeSessions = 0\<rparr>"

definition bookedStore :: store where
  "bookedStore = \<lparr>sessions = [bookedSession], clients = [bookedClient], reviews = []\<rparr>"

definition runningStore :: store where
  "runningStore =
     \<lparr>sessions = [runningSession],
      clients = [bookedClient\<lparr>totalSessions := 1, activeSessions := 1\<rparr>],
      reviews = []\<rparr>"

text \<open>A gateway that confirms every reference as paid, with the given metadata.\<close>

definition paidGateway :: "int option \<Rightarrow> string \<Rightarrow> verification option" where
  "paidGateway hours reference =
     Some \<lparr>gwStatus = True, gwSuccess = True, gwPaidAt = 1500, gwAdditionalHours = hours\<rparr>"


definition professionalSocket :: socket where
  "professionalSocket =
     \<lparr>socketId = ''k2'', userType = Some Professional, boundSessionId = [],
      clientAnonymousId = [], boundProfessionalId = ''p1''\<rparr>"

definition exampleRooms :: rooms where
  "exampleRooms =
     (\<lambda>r. {})(''consultation:s1'' := {''k1''}, ''professional:p1'' := {''k2''})"

text \<open>
  The booked session after the professional's first chat message at 1000 has activated
  it, and the store that holds it.
\<close>

definition messageActivatedSession :: session where
  "messageActivatedSession =
     bookedSession\<lparr>lastMessageAt := Some 1000, status := Active, startedAt := Some 1000,
       endsAt := Some 86401000\<rparr>"

definition messageActivatedStore :: store where
  "messageActivatedStore =
     documents
       (performAll
          (consultationMessage exampleRooms 1000 professionalSocket ''s1'' ''hello'' bookedStore)
          \<lparr>documents = bookedStore, chats = [], joined = exampleRooms\<rparr>)"

text \<open>
  A session with the ids of a real document, once its status is \<^verbatim>\<open>expired\<close>; a review
  of it; and its \<^verbatim>\<open>_id\<close> spelt with capital digits.
\<close>

definition reviewableSession :: session where
  "reviewableSession =
     runningSession\<lparr>sid := ''64b7f1a2c3d4e5f6a7b8c9d0'',
       professionalId := ''64b7f1a2c3d4e5f6a7b8c9d1'', status := Expired\<rparr>"

definition expiredStore :: store where
  "expiredStore =
     \<lparr>sessions = [reviewableSession],
      clients = [bookedClient\<lparr>totalSessions := 1\<rparr>],
      reviews = []\<rparr>"

definition reviewRequest :: review_request where
  "reviewRequest =
     \<lparr>rrProfessionalId = ''64b7f1a2c3d4e5f6a7b8c9d1'',
      rrSessionId = ''64b7f1a2c3d4e5f6a7b8c9d0'', rrSessionToken = ''tok1'',
      rrClientName = ''Ada'', rrRating = 5, rrComment = None\<rparr>"

definition respeltId :: string where
  "respeltId = ''64B7F1A2C3D4E5F6A7B8C9D0''"

text \<open>A decoder that knows one token string, minted at instant 0 for the client of \<^verbatim>\<open>s1\<close>.\<close>

definition exampleDecode :: "string \<Rightarrow> jwt option" where
  "exampleDecode t =
     (if t = ''jwt1'' then Some (clientSessionClaims 0 ''s1'' ''ANON-1'') else None)"

text \<open>The booking that produces \<open>bookedStore\<close>: one hour, for the client \<^verbatim>\<open>c1\<close>.\<close>

definition clientsOnlyStore :: store where
  "clientsOnlyStore = \<lparr>sessions = [], clients = [bookedClient], reviews = []\<rparr>"

definition bookingRequest :: booking_request where
  "bookingRequest =
     \<lparr>reqProfessionalId = ''p1'', reqClientId = ''c1'', reqDurationHours = 1, reqEmail = []\<rparr>"

definition bookingEnv :: booking_env where
  "bookingEnv = \<lparr>freshId = ''s1'', uuid = ''u1'', gatewayInit = Some True\<rparr>"

section \<open>Properties of the schema methods\<close>

lemma isExpired_iff:
  "isExpired now s \<longleftrightarrow> (\<exists>e. expiresAt s = Some e \<and> e < now)"
  by (simp add: isExpired_def split: option.split)

text \<open>
  Claim C6, as amended. \<^verbatim>\<open>isActive()\<close> answers true exactly when the status is
  \<^verbatim>\<open>active\<close>, the payment status is \<^verbatim>\<open>completed\<close>, and the session is not expired, which
  means that the expiry is unset or that the current time is at most the expiry (the
  instant of expiry itself still counts as active).
\<close>

theorem isActive_characterisation:
  "isActive now s \<longleftrightarrow>
     status s = Active \<and> paymentStatus s = PayCompleted \<and>
     (case expiresAt s of None \<Rightarrow> True | Some e \<Rightarrow> now \<le> e)"
  by (auto simp add: isActive_def isExpired_def split: option.split)

text \<open>
  Claim C6 as stated fails twice. An active session before its expiry whose payment is
  not completed is not reported active; and at the instant of expiry itself
  (\<open>now = expiresAt\<close>) a paid active session is still reported active.
\<close>

theorem isActive_counterexample:
  "\<not> (\<forall>now s. isActive now s \<longleftrightarrow>
        (status s = Active \<and> (\<exists>e. expiresAt s = Some e \<and> now < e)))
   \<and> status (runningSession\<lparr>paymentStatus := PayPending\<rparr>) = Active
   \<and> expiresAt (runningSession\<lparr>paymentStatus := PayPending\<rparr>) = Some 3601000
   \<and> \<not> isActive 2000 (runningSession\<lparr>paymentStatus := PayPending\<rparr>)
   \<and> expiresAt runningSession = Some 3601000
   \<and> isActive 3601000 runningSession"
proof -
  have a: "\<not> isActive 2000 (runningSession\<lparr>paymentStatus := PayPending\<rparr>)"
    by (simp add: isActive_def)
  have b: "status (runningSession\<lparr>paymentStatus := PayPending\<rparr>) = Active"
    and c: "expiresAt (runningSession\<lparr>paymentStatus := PayPending\<rparr>) = Some 3601000"
    and d: "expiresAt runningSession = Some 3601000"
    by (simp_all add: runningSession_def)
  have e: "isActive 3601000 runningSession"
    by (simp add: isActive_def isExpired_def runningSession_def bookedSession_def)
  have "\<not> (\<forall>now s. isActive now s \<longleftrightarrow>
        (status s = Active \<and> (\<exists>e. expiresAt s = Some e \<and> now < e)))"
  proof
    assume h: "\<forall>now s. isActive now s \<longleftrightarrow>
        (status s = Active \<and> (\<exists>e. expiresAt s = Some e \<and> now < e))"
    from h have "isActive 2000 (runningSession\<lparr>paymentStatus := PayPending\<rparr>)"
      using b c by simp
    with a show False by simp
  qed
  with a b c d e show ?thesis by simp
qed

section \<open>Lookups after a write\<close>

lemma find_map_replace:
  "find (\<lambda>t. sid t = j) (map (\<lambda>t. if sid t = sid s then s else t) xs) =
     (if j = sid s then map_option (\<lambda>_. s) (find (\<lambda>t. sid t = j) xs)
      else find (\<lambda>t. sid t = j) xs)"
  by (induction xs) auto

lemma findById_saveSession:
  "findById j (saveSession s db) =
     (if j = sid s then map_option (\<lambda>_. s) (findById j db) else findById j db)"
  by (simp add: findById_def saveSession_def find_map_replace)

lemma findById_sid: "findById i db = Some s \<Longrightarrow> sid s = i"
  by (auto simp add: findById_def find_Some_iff)

lemma sessions_incClientSessions [simp]:
  "sessions (incClientSessions i a b db) = sessions db"
  by (simp add: incClientSessions_def split: option.split)

lemma findById_incClientSessions [simp]:
  "findById j (incClientSessions i a b db) = findById j db"
  by (simp add: findById_def)

lemma reviews_incClientSessions [simp]:
  "reviews (incClientSessions i a b db) = reviews db"
  by (simp add: incClientSessions_def split: option.split)

lemma find_map_client:
  "find (\<lambda>c. clientDocId c = j)
        (map (\<lambda>d. if clientDocId d = i then f d else d) cs) =
     (if j = i then map_option f (find (\<lambda>c. clientDocId c = j) cs)
      else find (\<lambda>c. clientDocId c = j) cs)"
  if "\<And>d. clientDocId (f d) = clientDocId d"
  using that by (induction cs) auto

lemma findClientById_incClientSessions:
  "findClientById j (incClientSessions i a b db) =
     (if j = i
      then map_option (\<lambda>c. c\<lparr>totalSessions := totalSessions c + a,
                                activeSessions := activeSessions c + b\<rparr>)
             (findClientById j db)
      else findClientById j db)"
proof (cases "findClientById i db")
  case None
  then show ?thesis by (simp add: incClientSessions_def)
next
  case (Some c)
  then show ?thesis
    by (simp add: incClientSessions_def findClientById_def find_map_client)
qed

lemma clients_saveSession [simp]: "clients (saveSession s db) = clients db"
  by (simp add: saveSession_def)

lemma findClientById_saveSession [simp]:
  "findClientById j (saveSession s db) = findClientById j db"
  by (simp add: findClientById_def)

section \<open>The status query writes\<close>

text \<open>
  Claim C10. A status query that presents the session's token is not read-only. When the
  session is \<^verbatim>\<open>active\<close> and its expiry has passed, the query stores the status
  \<^verbatim>\<open>expired\<close> (every other field of the session as it was, every other session
  untouched), takes one off the client's \<^verbatim>\<open>activeSessions\<close>, and answers with the new
  status. For a session that is not active or not past its expiry the store is left
  exactly as it was.
\<close>

theorem getSessionStatus_expires_overdue_session:
  assumes "findById i db = Some s"
    and "sessionToken s \<noteq> []" and "bearerToken authorization = sessionToken s"
  shows "(status s = Active \<and> isExpired now s \<longrightarrow>
            findById i (snd (getSessionStatus now i authorization db)) =
              Some (s\<lparr>status := Expired\<rparr>) \<and>
            (\<forall>j. j \<noteq> i \<longrightarrow>
               findById j (snd (getSessionStatus now i authorization db)) = findById j db) \<and>
            findClientById (clientId s) (snd (getSessionStatus now i authorization db)) =
              map_option (\<lambda>c. c\<lparr>activeSessions := activeSessions c - 1\<rparr>)
                (findClientById (clientId s) db) \<and>
            map_option sdStatus (snd (fst (getSessionStatus now i authorization db))) =
              Some Expired)
       \<and> (\<not> (status s = Active \<and> isExpired now s) \<longrightarrow>
            snd (getSessionStatus now i authorization db) = db \<and>
            map_option sdStatus (snd (fst (getSessionStatus now i authorization db))) =
              Some (status s))"
proof -
  from assms(1) have i: "sid s = i" by (rule findById_sid)
  show ?thesis
    using assms i
    by (auto simp add: getSessionStatus_def findById_saveSession
          findClientById_incClientSessions statusData_def)
qed

theorem getSessionStatus_expires_overdue_session_witness:
  "findById ''s1'' (snd (getSessionStatus 4000000 ''s1'' (Some ''Bearer tok1'') runningStore)) =
     Some (runningSession\<lparr>status := Expired\<rparr>) \<and>
   findClientById ''c1''
       (snd (getSessionStatus 4000000 ''s1'' (Some ''Bearer tok1'') runningStore)) =
     Some (bookedClient\<lparr>totalSessions := 1, activeSessions := 0\<rparr>) \<and>
   snd (getSessionStatus 2000 ''s1'' (Some ''Bearer tok1'') runningStore) = runningStore"
proof -
  have f: "findById ''s1'' runningStore = Some runningSession"
    by (simp add: findById_def runningStore_def runningSession_def bookedSession_def)
  have t: "sessionToken runningSession \<noteq> []"
    "bearerToken (Some ''Bearer tok1'') = sessionToken runningSession"
    by (simp_all add: runningSession_def bookedSession_def bearerToken_def startsWith_def)
  have st: "status runningSession = Active" "clientId runningSession = ''c1''"
    "isExpired 4000000 runningSession" "\<not> isExpired 2000 runningSession"
    by (simp_all add: runningSession_def bookedSession_def isExpired_def)
  have c: "findClientById ''c1'' runningStore =
      Some (bookedClient\<lparr>totalSessions := 1, activeSessions := 1\<rparr>)"
    by (simp add: findClientById_def runningStore_def bookedClient_def)
  from getSessionStatus_expires_overdue_session [OF f t, of 4000000]
       getSessionStatus_expires_overdue_session [OF f t, of 2000] st c
  show ?thesis by simp
qed

text \<open>A query that does not present the session's token is refused and writes nothing.\<close>

lemma getSessionStatus_refused_writes_nothing:
  assumes "findById i db = Some s" and "bearerToken authorization \<noteq> sessionToken s"
  shows "snd (getSessionStatus now i authorization db) = db"
    and "snd (fst (getSessionStatus now i authorization db)) = None"
  using assms by (simp_all add: getSessionStatus_def)

section \<open>Replayed and late extension payments\<close>

text \<open>
  The guards that the booking and the verification of the original charge do have: a
  reference that a stored session holds books no second session, and a payment that is
  already verified is not applied again.
\<close>

lemma duplicate_reference_books_no_session:
  assumes "\<exists>t \<in> set (sessions db). paymentReference t = ''CONSULT_'' @ uuid env"
  shows "snd (initializeConsultationPayment sign now env rq db) = db"
  using assms
  by (auto simp add: initializeConsultationPayment_def insertSession_def newSession_def
        Let_def split: option.split)

lemma verified_payment_is_not_applied_again:
  assumes "findByPaymentReference reference db = Some s"
    and "\<not> startsWith ''EXTEND_'' reference" and "paymentStatus s = PayCompleted"
  shows "snd (verifyConsultationPayment now gw reference db) = db"
  using assms
  by (simp add: verifyConsultationPayment_def sessionOfReference_def split: option.split)

lemma extendSession_result:
  assumes "extendSession now h r s = Inr s'"
  shows "status s = Active" and "1 \<le> h" and "sid s' = sid s" and "status s' = Active"
    and "pricePerHour s' = pricePerHour s"
    and "extensions s' = extensions s @
           [\<lparr>extendedAt = now, additionalHours = h, additionalAmount = h * pricePerHour s,
             extPaymentReference = r, newExpiresAt = expiryOrNow now s + h * 3600000\<rparr>]"
    and "expiresAt s' = Some (expiryOrNow now s + h * 3600000)"
    and "paymentAmount s' = paymentAmount s + h * pricePerHour s"
proof -
  from assms have a: "status s = Active" and h: "1 \<le> h"
    by (simp_all add: extendSession_def split: if_splits)
  with assms have "s' =
      s\<lparr>extensions := extensions s @
             [\<lparr>extendedAt = now, additionalHours = h, additionalAmount = h * pricePerHour s,
               extPaymentReference = r, newExpiresAt = expiryOrNow now s + h * 3600000\<rparr>],
         isExtended := True,
         extensionCount := extensionCount s + 1,
         currentDuration := currentDuration s + h * 3600000,
         expiresAt := Some (expiryOrNow now s + h * 3600000),
         endsAt := Some (expiryOrNow now s + h * 3600000),
         paymentAmount := paymentAmount s + h * pricePerHour s\<rparr>"
    by (simp add: extendSession_def Let_def)
  with a h show "status s = Active" and "1 \<le> h" and "sid s' = sid s" and "status s' = Active"
    and "pricePerHour s' = pricePerHour s"
    and "extensions s' = extensions s @
           [\<lparr>extendedAt = now, additionalHours = h, additionalAmount = h * pricePerHour s,
             extPaymentReference = r, newExpiresAt = expiryOrNow now s + h * 3600000\<rparr>]"
    and "expiresAt s' = Some (expiryOrNow now s + h * 3600000)"
    and "paymentAmount s' = paymentAmount s + h * pricePerHour s"
    by simp_all
qed

lemma extendSession_succeeds:
  "status s = Active \<Longrightarrow> 1 \<le> h \<Longrightarrow> \<exists>s'. extendSession now h r s = Inr s'"
  by (simp add: extendSession_def Let_def)

text \<open>
  Claim C1, evaluated on the code: the verification of an extension payment is not
  idempotent. Whenever the gateway confirms an \<^verbatim>\<open>EXTEND_\<close> reference for an active
  session, a second delivery of that same reference is answered as a success and
  applied again: the session then holds two more extension records, both with the one
  reference, and the paid amount has grown twice. Nothing answers a duplicate reference.
\<close>

theorem replayed_extension_is_applied_twice:
  assumes ext: "startsWith ''EXTEND_'' reference" "extensionSessionId reference = Some i"
    and s: "findById i db = Some s" "status s = Active"
    and gw: "gw reference = Some v" "gwStatus v" "gwSuccess v" "1 \<le> hoursOrOne v"
  shows "\<exists>s1 s2.
           verifyConsultationPayment earlier gw reference db =
             (\<lparr>httpCode = 200, success = True, message = ''Session extended successfully''\<rparr>,
              saveSession s1 db) \<and>
           verifyConsultationPayment later gw reference (saveSession s1 db) =
             (\<lparr>httpCode = 200, success = True, message = ''Session extended successfully''\<rparr>,
              saveSession s2 (saveSession s1 db)) \<and>
           findById i (saveSession s2 (saveSession s1 db)) = Some s2 \<and>
           map extPaymentReference (extensions s2) =
             map extPaymentReference (extensions s) @ [reference, reference] \<and>
           paymentAmount s2 = paymentAmount s + 2 * (hoursOrOne v * pricePerHour s)"
proof -
  from ext(1) have ne: "reference \<noteq> []" by (auto simp add: startsWith_def)
  from s(1) have i: "sid s = i" by (rule findById_sid)
  from s(2) gw(4) obtain s1 where s1: "extendSession earlier (hoursOrOne v) reference s = Inr s1"
    using extendSession_succeeds by blast
  note r1 = extendSession_result [OF s1]
  from r1 i have k1: "sid s1 = i" "status s1 = Active" by simp_all
  from k1(2) gw(4) obtain s2 where s2: "extendSession later (hoursOrOne v) reference s1 = Inr s2"
    using extendSession_succeeds by blast
  note r2 = extendSession_result [OF s2]
  from r2 k1 have k2: "sid s2 = i" by simp
  from s k1 have f1: "findById i (saveSession s1 db) = Some s1"
    by (simp add: findById_saveSession)
  from f1 k2 have f2: "findById i (saveSession s2 (saveSession s1 db)) = Some s2"
    by (simp add: findById_saveSession)
  from ne ext s gw s1 have v1: "verifyConsultationPayment earlier gw reference db =
      (\<lparr>httpCode = 200, success = True, message = ''Session extended successfully''\<rparr>,
       saveSession s1 db)"
    by (simp add: verifyConsultationPayment_def sessionOfReference_def)
  from ne ext f1 gw s2 have v2: "verifyConsultationPayment later gw reference (saveSession s1 db) =
      (\<lparr>httpCode = 200, success = True, message = ''Session extended successfully''\<rparr>,
       saveSession s2 (saveSession s1 db))"
    by (simp add: verifyConsultationPayment_def sessionOfReference_def)
  from r1 r2 have e: "map extPaymentReference (extensions s2) =
      map extPaymentReference (extensions s) @ [reference, reference]"
    "paymentAmount s2 = paymentAmount s + 2 * (hoursOrOne v * pricePerHour s)"
    by simp_all
  from v1 v2 f2 e show ?thesis by blast
qed

text \<open>
  The running one-hour session is extended by two hours with the reference
  \<^verbatim>\<open>EXTEND_s1_u2\<close>, delivered at 2000 and again at 3000: two records of the one
  reference, the expiry moved by four hours, the paid amount grown by 20000.
\<close>

theorem replayed_extension_is_applied_twice_witness:
  "fst (verifyConsultationPayment 3000 (paidGateway (Some 2)) ''EXTEND_s1_u2''
          (snd (verifyConsultationPayment 2000 (paidGateway (Some 2)) ''EXTEND_s1_u2''
                  runningStore))) =
     \<lparr>httpCode = 200, success = True, message = ''Session extended successfully''\<rparr> \<and>
   map_option (\<lambda>s. (map extPaymentReference (extensions s), expiresAt s, paymentAmount s))
     (findById ''s1''
        (snd (verifyConsultationPayment 3000 (paidGateway (Some 2)) ''EXTEND_s1_u2''
           (snd (verifyConsultationPayment 2000 (paidGateway (Some 2)) ''EXTEND_s1_u2''
                   runningStore))))) =
     Some ([''EXTEND_s1_u2'', ''EXTEND_s1_u2''], Some (3601000 + 2 * 7200000), 5000 + 2 * 10000)"
  using replayed_extension_is_applied_twice
          [where reference = "''EXTEND_s1_u2''" and i = "''s1''" and db = runningStore
             and s = runningSession and gw = "paidGateway (Some 2)" and earlier = 2000
             and later = 3000
             and v = "\<lparr>gwStatus = True, gwSuccess = True, gwPaidAt = 1500,
                       gwAdditionalHours = Some 2\<rparr>"]
  by (simp add: verifyConsultationPayment_def sessionOfReference_def startsWith_def
        extensionSessionId_def findById_def runningStore_def runningSession_def
        bookedSession_def paidGateway_def hoursOrOne_def extendSession_def expiryOrNow_def
        saveSession_def Let_def)

text \<open>
  Claim C2, evaluated on the code: an extension is applied to a session whose clock has
  run out. Whenever the gateway confirms an \<^verbatim>\<open>EXTEND_\<close> reference for a session that is
  past its expiry but still has the status \<^verbatim>\<open>active\<close>, the verification answers a
  success, moves the expiry forward, appends an extension record and adds to the paid
  amount. Opening an extension for the same session at the same instant is refused.
\<close>

theorem overdue_session_is_extended:
  assumes ext: "startsWith ''EXTEND_'' reference" "extensionSessionId reference = Some i"
    and s: "findById i db = Some s" "status s = Active" "i \<noteq> []"
    and late: "expiresAt s = Some e" "0 < e" "e < now"
    and gw: "gw reference = Some v" "gwStatus v" "gwSuccess v" "1 \<le> hoursOrOne v"
  shows "isExpired now s \<and>
         (\<exists>s'. verifyConsultationPayment now gw reference db =
                 (\<lparr>httpCode = 200, success = True,
                   message = ''Session extended successfully''\<rparr>, saveSession s' db) \<and>
               findById i (saveSession s' db) = Some s' \<and>
               status s' = Active \<and>
               expiresAt s' = Some (e + hoursOrOne v * 3600000) \<and>
               length (extensions s') = length (extensions s) + 1 \<and>
               paymentAmount s' = paymentAmount s + hoursOrOne v * pricePerHour s) \<and>
         initializeSessionExtension now init i (hoursOrOne v) db =
           (\<lparr>httpCode = 400, success = False,
             message = ''Cannot extend expired session. Please start a new consultation.''\<rparr>,
            db)"
proof -
  from ext(1) have ne: "reference \<noteq> []" by (auto simp add: startsWith_def)
  from s(1) have i: "sid s = i" by (rule findById_sid)
  from late have x: "isExpired now s" by (simp add: isExpired_def)
  from s(2) gw(4) obtain s' where s': "extendSession now (hoursOrOne v) reference s = Inr s'"
    using extendSession_succeeds by blast
  note r = extendSession_result [OF s']
  from r i have k: "sid s' = i" by simp
  from s k have f: "findById i (saveSession s' db) = Some s'"
    by (simp add: findById_saveSession)
  from ne ext s gw s' have v: "verifyConsultationPayment now gw reference db =
      (\<lparr>httpCode = 200, success = True, message = ''Session extended successfully''\<rparr>,
       saveSession s' db)"
    by (simp add: verifyConsultationPayment_def sessionOfReference_def)
  from late have "expiryOrNow now s = e" by (simp add: expiryOrNow_def)
  with r have e: "status s' = Active"
    "expiresAt s' = Some (e + hoursOrOne v * 3600000)"
    "length (extensions s') = length (extensions s) + 1"
    "paymentAmount s' = paymentAmount s + hoursOrOne v * pricePerHour s"
    by simp_all
  from s x gw(4) have "initializeSessionExtension now init i (hoursOrOne v) db =
           (\<lparr>httpCode = 400, success = False,
             message = ''Cannot extend expired session. Please start a new consultation.''\<rparr>,
            db)"
    by (simp add: initializeSessionExtension_def)
  with x v f e show ?thesis by blast
qed

text \<open>
  At instant 4000000 the running session is past its expiry 3601000: the request to
  open an extension is refused, the verification of an extension payment is applied.
\<close>

theorem overdue_session_is_extended_witness:
  "isExpired 4000000 runningSession \<and>
   initializeSessionExtension 4000000 (Some True) ''s1'' 1 runningStore =
     (\<lparr>httpCode = 400, success = False,
       message = ''Cannot extend expired session. Please start a new consultation.''\<rparr>,
      runningStore) \<and>
   fst (verifyConsultationPayment 4000000 (paidGateway (Some 1)) ''EXTEND_s1_u3'' runningStore) =
     \<lparr>httpCode = 200, success = True, message = ''Session extended successfully''\<rparr> \<and>
   map_option (\<lambda>s. (status s, expiresAt s, length (extensions s), paymentAmount s))
     (findById ''s1''
        (snd (verifyConsultationPayment 4000000 (paidGateway (Some 1)) ''EXTEND_s1_u3''
                runningStore))) =
     Some (Active, Some 7201000, 1, 10000)"
  using overdue_session_is_extended
          [where reference = "''EXTEND_s1_u3''" and i = "''s1''" and db = runningStore
             and s = runningSession and gw = "paidGateway (Some 1)" and now = 4000000
             and e = 3601000 and init = "Some True"
             and v = "\<lparr>gwStatus = True, gwSuccess = True, gwPaidAt = 1500,
                       gwAdditionalHours = Some 1\<rparr>"]
  by (simp add: verifyConsultationPayment_def sessionOfReference_def startsWith_def
        extensionSessionId_def findById_def runningStore_def runningSession_def
        bookedSession_def paidGateway_def hoursOrOne_def extendSession_def expiryOrNow_def
        saveSession_def Let_def initializeSessionExtension_def isExpired_def)

text \<open>
  Claim C3, evaluated on the code: the activation of a pending session by its first chat
  message does not use the booked hours. The handler stamps \<^verbatim>\<open>startedAt = now\<close> and
  \<^verbatim>\<open>endsAt = now + 24 h\<close>, whatever \<^verbatim>\<open>currentDuration\<close> holds, and does not touch
  \<^verbatim>\<open>expiresAt\<close>, which a booking leaves unset.
\<close>

theorem first_message_activation_ignores_booked_hours:
  assumes s: "findById i db = Some s" "status s = Pending" "\<not> past now (endsAt s)"
    and who: "senderOf sock s i = Some (who, kind)" "who \<noteq> []"
    and msg: "trim words \<noteq> []" "length words \<le> 2000"
  shows "\<exists>m s'. consultationMessage rs now sock i words db =
                  [InsertMessage m, SaveSession s',
                   Emit (rs (consultationRoom i)) ''consultation:message'' (ChatBody m)] \<and>
                status s' = Active \<and> startedAt s' = Some now \<and>
                endsAt s' = Some (now + 24 * 3600000) \<and>
                expiresAt s' = expiresAt s \<and> currentDuration s' = currentDuration s"
proof -
  from msg(1) have t: "words \<noteq> []" by (auto simp add: trim_def)
  from s(2) have "status (touchSession now kind s) = Active \<and>
      startedAt (touchSession now kind s) = Some now \<and>
      endsAt (touchSession now kind s) = Some (now + 24 * 3600000) \<and>
      expiresAt (touchSession now kind s) = expiresAt s \<and>
      currentDuration (touchSession now kind s) = currentDuration s"
    by (simp add: touchSession_def activateOnMessage_def Let_def)
  with s who msg t show ?thesis
    by (simp add: consultationMessage_def ioTo_def Let_def)
qed

text \<open>
  The session booked for one hour, activated by the professional's first message at
  instant 1000: \<^verbatim>\<open>endsAt = 86401000\<close>, \<^verbatim>\<open>expiresAt\<close> unset.
\<close>

theorem first_message_activation_ignores_booked_hours_witness:
  "connect exampleDecode 500 ''k2''
       \<lparr>authUserId = [], authSessionToken = [], authProfessionalId = ''p1''\<rparr> =
     (professionalSocket, [JoinRoom ''k2'' ''professional:p1'']) \<and>
   durationHours bookedSession = 1 \<and>
   consultationMessage exampleRooms 1000 professionalSocket ''s1'' ''hello'' bookedStore =
     [InsertMessage
        \<lparr>chatSessionId = ''s1'', senderId = ''professional'', senderType = Professional,
         content = ''hello'', isRead = False, createdAt = 1000\<rparr>,
      SaveSession
        (bookedSession\<lparr>lastMessageAt := Some 1000, status := Active,
           startedAt := Some 1000, endsAt := Some 86401000\<rparr>),
      Emit {''k1''} ''consultation:message''
        (ChatBody
           \<lparr>chatSessionId = ''s1'', senderId = ''professional'', senderType = Professional,
            content = ''hello'', isRead = False, createdAt = 1000\<rparr>)] \<and>
   expiresAt (bookedSession\<lparr>lastMessageAt := Some 1000, status := Active,
                startedAt := Some 1000, endsAt := Some 86401000\<rparr>) = None"
  using first_message_activation_ignores_booked_hours
          [where i = "''s1''" and db = bookedStore and s = bookedSession and now = 1000
             and sock = professionalSocket and who = "''professional''"
             and kind = Professional and words = "''hello''" and rs = exampleRooms]
  by (simp add: connect_def consultationMessage_def trim_def isSpace_def findById_def bookedStore_def
        bookedSession_def past_def senderOf_def professionalSocket_def touchSession_def
        activateOnMessage_def ioTo_def consultationRoom_def exampleRooms_def Let_def)

section \<open>Activation\<close>

lemma documents_perform_JoinRoom [simp]:
  "documents (perform (JoinRoom a b) h) = documents h"
  by simp

lemma touchSession_active:
  "status s = Active \<Longrightarrow>
     status (touchSession now k s) = Active \<and>
     startedAt (touchSession now k s) = startedAt s \<and>
     expiresAt (touchSession now k s) = expiresAt s \<and>
     endsAt (touchSession now k s) = endsAt s"
  by (simp add: touchSession_def Let_def)

section \<open>Reviews\<close>

lemma find_snoc:
  "find P (xs @ [x]) = (case find P xs of None \<Rightarrow> (if P x then Some x else None) | Some y \<Rightarrow> Some y)"
  by (induction xs) auto

section \<open>Chat fan-out\<close>


section \<open>Token lifetimes\<close>

lemma find_append_new:
  "\<forall>t \<in> set xs. \<not> P t \<Longrightarrow> P x \<Longrightarrow> find P (xs @ [x]) = Some x"
  by (induction xs) auto

lemma insertSession_member:
  "insertSession s db = Some db' \<Longrightarrow> s \<in> set (sessions db')"
  by (auto simp add: insertSession_def split: if_splits)

text \<open>
  Claim C9 as stated fails for the token minted at booking. Its lifetime is seven days,
  604800 seconds, whatever is booked: not the booked hour plus one hour (7200 s), and not
  the longest bookable duration, \<^verbatim>\<open>MAXIMUM_HOURS\<close>, plus one hour (32400 s).
\<close>

theorem booking_token_counterexample:
  "exp (bookingTokenClaims 1000 bookedClient ''p1'') -
     iat (bookingTokenClaims 1000 bookedClient ''p1'') = 604800 \<and>
   (604800::int) \<noteq> (durationHours bookedSession + 1) * 3600 \<and>
   (604800::int) \<noteq> (MAXIMUM_HOURS + 1) * 3600"
  by (simp add: bookingTokenClaims_def jwtSign_def sevenDays_def bookedSession_def
        MAXIMUM_HOURS_def)

text \<open>
  Claim C9, as amended. The client token of \<^verbatim>\<open>generateClientSessionToken\<close> lives 25
  hours, the fixed 24-hour session of that flow plus a one-hour buffer, and is accepted
  exactly until then. The session token that \<^verbatim>\<open>initializeConsultationPayment\<close> stores
  with a new booking lives seven days, whatever duration is booked.
\<close>

theorem token_lifetimes:
  "exp (clientSessionClaims now i a) - iat (clientSessionClaims now i a) = 24 * 3600 + 3600
   \<and> (decode (generateClientSessionToken sign now i a) = Some (clientSessionClaims now i a)
        \<longrightarrow> verifyClientSessionToken decode t (generateClientSessionToken sign now i a) =
              (if t div 1000 < now div 1000 + (24 * 3600 + 3600) then Some (i, a) else None))
   \<and> (fst (initializeConsultationPayment sign now env rq db) =
          \<lparr>httpCode = 200, success = True, message = ''Payment initialized successfully''\<rparr>
        \<longrightarrow> (\<exists>c s. findClientById (reqClientId rq) db = Some c \<and>
                   s \<in> set (sessions (snd (initializeConsultationPayment sign now env rq db))) \<and>
                   sid s = freshId env \<and> durationHours s = reqDurationHours rq \<and>
                   sessionToken s = sign (bookingTokenClaims now c (reqProfessionalId rq)) \<and>
                   exp (bookingTokenClaims now c (reqProfessionalId rq)) -
                     iat (bookingTokenClaims now c (reqProfessionalId rq)) = 7 * 24 * 3600))"
proof (intro conjI impI)
  show "exp (clientSessionClaims now i a) - iat (clientSessionClaims now i a) = 24 * 3600 + 3600"
    by (simp add: clientSessionClaims_def jwtSign_def twentyFiveHours_def)
next
  assume "decode (generateClientSessionToken sign now i a) = Some (clientSessionClaims now i a)"
  then show "verifyClientSessionToken decode t (generateClientSessionToken sign now i a) =
              (if t div 1000 < now div 1000 + (24 * 3600 + 3600) then Some (i, a) else None)"
    by (simp add: verifyClientSessionToken_def jwtVerify_def clientSessionClaims_def
          jwtSign_def twentyFiveHours_def field_def)
next
  let ?r = "initializeConsultationPayment sign now env rq db"
  assume ok: "fst ?r =
     \<lparr>httpCode = 200, success = True, message = ''Payment initialized successfully''\<rparr>"
  then obtain c where c: "findClientById (reqClientId rq) db = Some c"
    by (cases "findClientById (reqClientId rq) db")
       (auto simp add: initializeConsultationPayment_def split: if_splits)
  let ?s = "newSession rq env c (sign (bookingTokenClaims now c (reqProfessionalId rq)))"
  from ok c obtain db' where ins: "insertSession ?s db = Some db'"
    by (cases "insertSession ?s db")
       (auto simp add: initializeConsultationPayment_def internalError_def Let_def
          split: if_splits)
  from ok c ins have "snd ?r = db'"
    by (auto simp add: initializeConsultationPayment_def internalError_def Let_def
          split: if_splits option.splits)
  with insertSession_member [OF ins] have "?s \<in> set (sessions (snd ?r))" by simp
  moreover have "sid ?s = freshId env" "durationHours ?s = reqDurationHours rq"
    "sessionToken ?s = sign (bookingTokenClaims now c (reqProfessionalId rq))"
    by (simp_all add: newSession_def)
  moreover have "exp (bookingTokenClaims now c (reqProfessionalId rq)) -
      iat (bookingTokenClaims now c (reqProfessionalId rq)) = 7 * 24 * 3600"
    by (simp add: bookingTokenClaims_def jwtSign_def sevenDays_def)
  ultimately show "\<exists>c s. findClientById (reqClientId rq) db = Some c \<and>
       s \<in> set (sessions (snd ?r)) \<and> sid s = freshId env \<and>
       durationHours s = reqDurationHours rq \<and>
       sessionToken s = sign (bookingTokenClaims now c (reqProfessionalId rq)) \<and>
       exp (bookingTokenClaims now c (reqProfessionalId rq)) -
         iat (bookingTokenClaims now c (reqProfessionalId rq)) = 7 * 24 * 3600"
    using c by blast
qed

theorem token_lifetimes_witness:
  "verifyClientSessionToken exampleDecode 89999999
       (generateClientSessionToken (\<lambda>c. ''jwt1'') 0 ''s1'' ''ANON-1'') = Some (''s1'', ''ANON-1'')
   \<and> verifyClientSessionToken exampleDecode 90000000
       (generateClientSessionToken (\<lambda>c. ''jwt1'') 0 ''s1'' ''ANON-1'') = None
   \<and> initializeConsultationPayment (\<lambda>c. ''tok1'') 1000 bookingEnv bookingRequest
       clientsOnlyStore =
       (\<lparr>httpCode = 200, success = True, message = ''Payment initialized successfully''\<rparr>,
        bookedStore)
   \<and> (\<exists>c s. findClientById ''c1'' clientsOnlyStore = Some c \<and>
             s \<in> set (sessions bookedStore) \<and> durationHours s = 1 \<and>
             sessionToken s = ''tok1'' \<and>
             exp (bookingTokenClaims 1000 c ''p1'') - iat (bookingTokenClaims 1000 c ''p1'') =
               7 * 24 * 3600)"
proof -
  have d: "exampleDecode (generateClientSessionToken (\<lambda>c. ''jwt1'') 0 ''s1'' ''ANON-1'') =
      Some (clientSessionClaims 0 ''s1'' ''ANON-1'')"
    by (simp add: exampleDecode_def generateClientSessionToken_def)
  have b: "initializeConsultationPayment (\<lambda>c. ''tok1'') 1000 bookingEnv bookingRequest
       clientsOnlyStore =
       (\<lparr>httpCode = 200, success = True, message = ''Payment initialized successfully''\<rparr>,
        bookedStore)"
    by (simp add: initializeConsultationPayment_def bookingRequest_def bookingEnv_def
          clientsOnlyStore_def bookedClient_def findClientById_def MINIMUM_HOURS_def
          MAXIMUM_HOURS_def newSession_def insertSession_def DEFAULT_PRICE_PER_HOUR_def
          bookedStore_def bookedSession_def Let_def)
  have r: "reqClientId bookingRequest = ''c1''" "reqProfessionalId bookingRequest = ''p1''"
    "reqDurationHours bookingRequest = 1"
    by (simp_all add: bookingRequest_def)
  have v1: "verifyClientSessionToken exampleDecode 89999999
       (generateClientSessionToken (\<lambda>c. ''jwt1'') 0 ''s1'' ''ANON-1'') = Some (''s1'', ''ANON-1'')"
    using d token_lifetimes [where now = 0 and i = "''s1''" and a = "''ANON-1''"
         and decode = exampleDecode and sign = "\<lambda>c. ''jwt1''" and t = 89999999
         and env = bookingEnv and rq = bookingRequest and db = clientsOnlyStore]
    by simp
  have v2: "verifyClientSessionToken exampleDecode 90000000
       (generateClientSessionToken (\<lambda>c. ''jwt1'') 0 ''s1'' ''ANON-1'') = None"
    using d token_lifetimes [where now = 0 and i = "''s1''" and a = "''ANON-1''"
         and decode = exampleDecode and sign = "\<lambda>c. ''jwt1''" and t = 90000000
         and env = bookingEnv and rq = bookingRequest and db = clientsOnlyStore]
    by simp
  have ok: "fst (initializeConsultationPayment (\<lambda>c. ''tok1'') 1000 bookingEnv bookingRequest
       clientsOnlyStore) =
       \<lparr>httpCode = 200, success = True, message = ''Payment initialized successfully''\<rparr>"
    by (simp add: b)
  from token_lifetimes [where now = 1000 and i = "''s1''" and a = "''ANON-1''"
         and decode = exampleDecode and sign = "\<lambda>c. ''tok1''" and t = 0
         and env = bookingEnv and rq = bookingRequest and db = clientsOnlyStore,
         THEN conjunct2, THEN conjunct2, THEN mp, OF ok]
  obtain c s where "findClientById (reqClientId bookingRequest) clientsOnlyStore = Some c"
    and "s \<in> set (sessions (snd (initializeConsultationPayment (\<lambda>c. ''tok1'') 1000
            bookingEnv bookingRequest clientsOnlyStore)))"
    and "durationHours s = reqDurationHours bookingRequest"
    and "sessionToken s = ''tok1''"
    and "exp (bookingTokenClaims 1000 c (reqProfessionalId bookingRequest)) -
           iat (bookingTokenClaims 1000 c (reqProfessionalId bookingRequest)) = 7 * 24 * 3600"
    by blast
  then have v3: "\<exists>c s. findClientById ''c1'' clientsOnlyStore = Some c \<and>
             s \<in> set (sessions bookedStore) \<and> durationHours s = 1 \<and>
             sessionToken s = ''tok1'' \<and>
             exp (bookingTokenClaims 1000 c ''p1'') - iat (bookingTokenClaims 1000 c ''p1'') =
               7 * 24 * 3600"
    unfolding b r by (intro exI [of _ c] exI [of _ s]) simp
  from v1 v2 v3 b show ?thesis by simp
qed

section \<open>The booked duration on the paths that honour it\<close>

lemma startSession_window:
  "paymentStatus s = PayCompleted \<Longrightarrow>
     \<exists>s'. startSession now s = Inr s' \<and> status s' = Active \<and>
          startedAt s' = Some now \<and> expiresAt s' = Some (now + currentDuration s)"
  by (simp add: startSession_def)

lemma activateOnJoin_window:
  "status (activateOnJoin now s) = Active \<and> startedAt (activateOnJoin now s) = Some now \<and>
   expiresAt (activateOnJoin now s) = Some (now + currentDuration s)"
  by (simp add: activateOnJoin_def)

lemma booking_then_payment_window:
  assumes book: "initializeConsultationPayment sign now0 env rq db = (r, db1)"
    and ok: "httpCode r = 200"
    and gw: "gw (''CONSULT_'' @ uuid env) = Some v" "gwStatus v" "gwSuccess v"
  shows "1 \<le> reqDurationHours rq \<and>
         (\<exists>s. findById (freshId env)
                 (snd (verifyConsultationPayment now gw (''CONSULT_'' @ uuid env) db1)) = Some s \<and>
              status s = Active \<and> startedAt s = Some now \<and>
              expiresAt s = Some (now + reqDurationHours rq * 3600000))"
proof -
  from book ok have h: "1 \<le> reqDurationHours rq"
    by (auto simp add: initializeConsultationPayment_def MINIMUM_HOURS_def split: if_splits)
  from book ok obtain c where c: "findClientById (reqClientId rq) db = Some c"
    by (cases "findClientById (reqClientId rq) db")
       (auto simp add: initializeConsultationPayment_def split: if_splits)
  let ?s = "newSession rq env c (sign (bookingTokenClaims now0 c (reqProfessionalId rq)))"
  from book ok c obtain db' where ins: "insertSession ?s db = Some db'"
    by (cases "insertSession ?s db")
       (auto simp add: initializeConsultationPayment_def internalError_def Let_def
          split: if_splits)
  from book ok c ins have db1: "db1 = db'"
    by (auto simp add: initializeConsultationPayment_def internalError_def Let_def
          split: if_splits option.splits)
  from ins have fresh: "\<forall>t \<in> set (sessions db). sid t \<noteq> sid ?s \<and>
      paymentReference t \<noteq> paymentReference ?s"
    and app: "db' = db\<lparr>sessions := sessions db @ [?s]\<rparr>"
    by (auto simp add: insertSession_def split: if_splits)
  define ref where "ref = ''CONSULT_'' @ uuid env"
  have nref: "ref \<noteq> []" "\<not> startsWith ''EXTEND_'' ref"
    by (simp_all add: ref_def startsWith_def)
  have ref: "paymentReference ?s = ref" and i: "sid ?s = freshId env"
    by (simp_all add: newSession_def ref_def)
  from fresh app ref db1 have f1: "findByPaymentReference ref db1 = Some ?s"
    by (simp add: findByPaymentReference_def find_append_new)
  from fresh app i db1 have f2: "findById (freshId env) db1 = Some ?s"
    by (simp add: findById_def find_append_new)
  have pend: "paymentStatus ?s = PayPending"
    "currentDuration ?s = reqDurationHours rq * 3600000"
    by (simp_all add: newSession_def)
  from gw have gw': "gw ref = Some v" by (simp add: ref_def)
  from f1 f2 gw' gw(2,3) pend i nref
  have "\<exists>s. findById (freshId env) (snd (verifyConsultationPayment now gw ref db1)) = Some s \<and>
              status s = Active \<and> startedAt s = Some now \<and>
              expiresAt s = Some (now + reqDurationHours rq * 3600000)"
    by (simp add: verifyConsultationPayment_def sessionOfReference_def
          startSession_def findById_saveSession)
  with h show ?thesis by (simp add: ref_def)
qed

section \<open>Extension of an unexpired session\<close>





section \<open>A second activation\<close>

lemma findByPaymentReference_stored:
  "findByPaymentReference r db = Some s \<Longrightarrow> \<exists>t. findById (sid s) db = Some t"
proof -
  assume "findByPaymentReference r db = Some s"
  then have "s \<in> set (sessions db)"
    by (auto simp add: findByPaymentReference_def find_Some_iff)
  then have "find (\<lambda>t. sid t = sid s) (sessions db) \<noteq> None"
    by (auto simp add: find_None_iff)
  then show ?thesis by (auto simp add: findById_def)
qed

text \<open>
  The activations that do guard a second run: joining a session that is not pending
  writes no document, and a chat message into an active session leaves its status and
  its stamps as they are (\<open>touchSession_active\<close>).
\<close>

lemma join_activates_pending_only:
  assumes "findBySessionToken token db = Some s" and "status s \<noteq> Pending"
    and "\<not> past now (expiresAt s)"
  shows "joinConsultation now socket token db =
           [JoinRoom socket (consultationRoom (sid s)),
            Emit {socket} ''joined:consultation''
              (JoinedBody (sid s) (professionalId s) (endsAt s))]"
    and "documents (performAll (joinConsultation now socket token db) h) = documents h"
  using assms by (simp_all add: joinConsultation_def performAll_def)

text \<open>
  Claim C5, evaluated on the code: a second activation is not a no-op. The verification
  of the original payment guards on the payment status alone, and \<^verbatim>\<open>startSession\<close> has
  no guard on the status. Whenever the gateway confirms the payment of a session that
  is already active and whose payment status is not yet \<^verbatim>\<open>completed\<close>, the session is
  started again: the reply is a success, and \<^verbatim>\<open>startedAt\<close> and \<^verbatim>\<open>expiresAt\<close> are
  stamped anew from the instant of the verification, whatever they held.
\<close>

theorem verification_restarts_active_session:
  assumes ref: "reference \<noteq> []" "\<not> startsWith ''EXTEND_'' reference"
    and s: "findByPaymentReference reference db = Some s" "status s = Active"
      "paymentStatus s \<noteq> PayCompleted"
    and gw: "gw reference = Some v" "gwStatus v" "gwSuccess v"
  shows "\<exists>s'. verifyConsultationPayment now gw reference db =
                (\<lparr>httpCode = 200, success = True,
                  message = ''Payment verified and session activated''\<rparr>,
                 incClientSessions (clientId s) 1 1 (saveSession s' db)) \<and>
              findById (sid s) (snd (verifyConsultationPayment now gw reference db)) = Some s' \<and>
              status s' = Active \<and> paymentStatus s' = PayCompleted \<and>
              startedAt s' = Some now \<and>
              expiresAt s' = Some (now + currentDuration s) \<and>
              endsAt s' = Some (now + currentDuration s)"
proof -
  let ?p = "s\<lparr>paymentStatus := PayCompleted, paidAt := Some (gwPaidAt v)\<rparr>"
  let ?s' = "?p\<lparr>status := Active, startedAt := Some now,
                 expiresAt := Some (now + currentDuration ?p),
                 endsAt := Some (now + currentDuration ?p)\<rparr>"
  have st: "startSession now ?p = Inr ?s'" by (simp add: startSession_def)
  from ref s gw st have v: "verifyConsultationPayment now gw reference db =
      (\<lparr>httpCode = 200, success = True, message = ''Payment verified and session activated''\<rparr>,
       incClientSessions (clientId s) 1 1 (saveSession ?s' db))"
    by (simp add: verifyConsultationPayment_def sessionOfReference_def)
  from findByPaymentReference_stored [OF s(1)] obtain t where "findById (sid s) db = Some t"
    by blast
  then have "findById (sid s) (saveSession ?s' db) = Some ?s'"
    by (simp add: findById_saveSession)
  with v have f: "findById (sid s) (snd (verifyConsultationPayment now gw reference db)) = Some ?s'"
    by simp
  have "status ?s' = Active" "paymentStatus ?s' = PayCompleted" "startedAt ?s' = Some now"
    "expiresAt ?s' = Some (now + currentDuration s)"
    "endsAt ?s' = Some (now + currentDuration s)"
    by simp_all
  with v f show ?thesis by blast
qed

text \<open>
  The session booked for one hour is activated by the professional's first chat message
  at 1000, its payment still pending. The verification of its payment at 5000 starts it
  again: \<^verbatim>\<open>startedAt\<close> moves from 1000 to 5000, \<^verbatim>\<open>expiresAt\<close> from unset to 3605000
  and \<^verbatim>\<open>endsAt\<close> from 86401000 to 3605000.
\<close>

theorem verification_restarts_active_session_witness:
  "map_option (\<lambda>s. (status s, paymentStatus s, startedAt s, expiresAt s, endsAt s))
     (findById ''s1'' messageActivatedStore) =
     Some (Active, PayPending, Some 1000, None, Some 86401000) \<and>
   fst (verifyConsultationPayment 5000 (paidGateway None) ''CONSULT_u1'' messageActivatedStore) =
     \<lparr>httpCode = 200, success = True, message = ''Payment verified and session activated''\<rparr> \<and>
   map_option (\<lambda>s. (status s, paymentStatus s, startedAt s, expiresAt s, endsAt s))
     (findById ''s1''
        (snd (verifyConsultationPayment 5000 (paidGateway None) ''CONSULT_u1''
                messageActivatedStore))) =
     Some (Active, PayCompleted, Some 5000, Some 3605000, Some 3605000)"
  using verification_restarts_active_session
          [where reference = "''CONSULT_u1''" and db = messageActivatedStore
             and s = messageActivatedSession and gw = "paidGateway None" and now = 5000
             and v = "\<lparr>gwStatus = True, gwSuccess = True, gwPaidAt = 1500,
                       gwAdditionalHours = None\<rparr>"]
  by (simp add: messageActivatedStore_def messageActivatedSession_def consultationMessage_def
        trim_def isSpace_def findById_def bookedStore_def bookedSession_def past_def
        senderOf_def professionalSocket_def touchSession_def activateOnMessage_def
        performAll_def saveSession_def Let_def
        verifyConsultationPayment_def sessionOfReference_def startsWith_def
        findByPaymentReference_def paidGateway_def startSession_def incClientSessions_def
        findClientById_def bookedClient_def)

section \<open>One review for a session\<close>

text \<open>
  What an accepted review implies: the request names, up to the cast of its ids, a
  stored session with that session's token; the status of the session is \<^verbatim>\<open>expired\<close>,
  so it is \<^verbatim>\<open>expired\<close> or \<^verbatim>\<open>ended\<close> and never \<^verbatim>\<open>active\<close>; no review is stored under
  the session id as the request spells it; and the same request again is rejected as
  already reviewed.
\<close>

lemma submitReview_accepts_only:
  assumes "submitReview cast rq db = Inr (r, db')"
  shows "reviewSchemaOk rq"
    and "\<exists>i p s. cast (rrSessionId rq) = Some i \<and> cast (rrProfessionalId rq) = Some p \<and>
           findReviewedSession i (rrSessionToken rq) p db = Some s \<and>
           sid s = i \<and> sessionToken s = rrSessionToken rq \<and>
           status s = Expired \<and> status s \<in> {Expired, Ended} \<and> status s \<noteq> Active"
    and "findReview (rrSessionId rq) db = None"
    and "r = \<lparr>reviewProfessionalId = rrProfessionalId rq, reviewSessionId = rrSessionId rq,
              clientName = rrClientName rq, rating = rrRating rq, comment = rrComment rq\<rparr>"
    and "db' = db\<lparr>reviews := reviews db @ [r]\<rparr>"
    and "submitReview cast rq db' = Inl AlreadyReviewed"
proof -
  from assms show ok: "reviewSchemaOk rq"
    by (auto simp add: submitReview_def split: if_splits)
  from assms ok obtain i where i: "cast (rrSessionId rq) = Some i"
    by (cases "cast (rrSessionId rq)") (auto simp add: submitReview_def)
  from assms ok i obtain p where p: "cast (rrProfessionalId rq) = Some p"
    by (cases "cast (rrProfessionalId rq)") (auto simp add: submitReview_def)
  from assms ok i p obtain s where s: "findReviewedSession i (rrSessionToken rq) p db = Some s"
    by (cases "findReviewedSession i (rrSessionToken rq) p db") (auto simp add: submitReview_def)
  from assms ok i p s have st: "status s = Expired"
    by (auto simp add: submitReview_def split: if_splits)
  from assms ok i p s st show none: "findReview (rrSessionId rq) db = None"
    by (auto simp add: submitReview_def split: option.splits)
  from assms ok i p s st none
  show r: "r = \<lparr>reviewProfessionalId = rrProfessionalId rq, reviewSessionId = rrSessionId rq,
              clientName = rrClientName rq, rating = rrRating rq, comment = rrComment rq\<rparr>"
    and db': "db' = db\<lparr>reviews := reviews db @ [r]\<rparr>"
    by (auto simp add: submitReview_def Let_def)
  from s have ids: "sid s = i \<and> sessionToken s = rrSessionToken rq"
    by (auto simp add: findReviewedSession_def find_Some_iff)
  with i p s st
  show "\<exists>i p s. cast (rrSessionId rq) = Some i \<and> cast (rrProfessionalId rq) = Some p \<and>
           findReviewedSession i (rrSessionToken rq) p db = Some s \<and>
           sid s = i \<and> sessionToken s = rrSessionToken rq \<and>
           status s = Expired \<and> status s \<in> {Expired, Ended} \<and> status s \<noteq> Active"
    by simp
  from s db' have s': "findReviewedSession i (rrSessionToken rq) p db' = Some s"
    by (simp add: findReviewedSession_def)
  from none db' r have "findReview (rrSessionId rq) db' = Some r"
    by (simp add: findReview_def find_snoc)
  with ok i p s' st show "submitReview cast rq db' = Inl AlreadyReviewed"
    by (simp add: submitReview_def)
qed

text \<open>
  Claim C7, evaluated on the code: a session can be reviewed twice. The session is found
  by the ObjectId that the request's \<^verbatim>\<open>sessionId\<close> casts to, but the stored review is
  looked up, and the new one stored, under the string as the request spells it. After
  an accepted review, the same request with the session id respelt (another string that
  casts to the same ObjectId, under which no review is stored) is accepted again: it
  finds the same session, finds no review, and stores a second review of that session.
\<close>

theorem respelt_session_id_is_reviewed_twice:
  assumes first: "submitReview cast rq db = Inr (r, db')"
    and same: "cast x = cast (rrSessionId rq)"
    and other: "x \<noteq> rrSessionId rq" "x \<noteq> []"
    and fresh: "findReview x db = None"
  shows "\<exists>i p s r'.
           cast (rrSessionId rq) = Some i \<and> cast x = Some i \<and>
           cast (rrProfessionalId rq) = Some p \<and>
           findReviewedSession i (rrSessionToken rq) p db = Some s \<and>
           findReviewedSession i (rrSessionToken rq) p db' = Some s \<and>
           submitReview cast (rq\<lparr>rrSessionId := x\<rparr>) db' =
             Inr (r', db\<lparr>reviews := reviews db @ [r, r']\<rparr>) \<and>
           reviewSessionId r = rrSessionId rq \<and> reviewSessionId r' = x"
proof -
  note a = submitReview_accepts_only [OF first]
  from a(2) obtain i p s where i: "cast (rrSessionId rq) = Some i"
    and p: "cast (rrProfessionalId rq) = Some p"
    and s: "findReviewedSession i (rrSessionToken rq) p db = Some s"
    and st: "status s = Expired"
    by blast
  from same i have x: "cast x = Some i" by simp
  from s a(5) have s': "findReviewedSession i (rrSessionToken rq) p db' = Some s"
    by (simp add: findReviewedSession_def)
  from a(4) have rid: "reviewSessionId r = rrSessionId rq" by simp
  from fresh a(5) rid other(1) have none: "findReview x db' = None"
    by (simp add: findReview_def find_snoc)
  from a(1) other(2) have ok: "reviewSchemaOk (rq\<lparr>rrSessionId := x\<rparr>)"
    by (cases x) (simp_all add: reviewSchemaOk_def)
  let ?r' = "\<lparr>reviewProfessionalId = rrProfessionalId rq, reviewSessionId = x,
              clientName = rrClientName rq, rating = rrRating rq, comment = rrComment rq\<rparr>"
  from ok x p s' st none a(5)
  have "submitReview cast (rq\<lparr>rrSessionId := x\<rparr>) db' =
      Inr (?r', db\<lparr>reviews := reviews db @ [r, ?r']\<rparr>)"
    by (simp add: submitReview_def Let_def)
  moreover have "reviewSessionId ?r' = x" by simp
  ultimately show ?thesis using i x p s s' rid by blast
qed

text \<open>
  The expired session \<^verbatim>\<open>64b7f1a2c3d4e5f6a7b8c9d0\<close> is reviewed under that spelling of
  its id, and then again under \<^verbatim>\<open>64B7F1A2C3D4E5F6A7B8C9D0\<close>: the store holds two
  reviews of the one session. The identical second request is rejected, and so is a
  review of the session while it is active.
\<close>

theorem respelt_session_id_is_reviewed_twice_witness:
  "hexObjectId respeltId = hexObjectId (rrSessionId reviewRequest) \<and>
   (\<exists>r r' db'.
      submitReview hexObjectId reviewRequest expiredStore = Inr (r, db') \<and>
      submitReview hexObjectId reviewRequest db' = Inl AlreadyReviewed \<and>
      submitReview hexObjectId (reviewRequest\<lparr>rrSessionId := respeltId\<rparr>) db' =
        Inr (r', expiredStore\<lparr>reviews := [r, r']\<rparr>) \<and>
      reviewSessionId r = ''64b7f1a2c3d4e5f6a7b8c9d0'' \<and>
      reviewSessionId r' = ''64B7F1A2C3D4E5F6A7B8C9D0'') \<and>
   submitReview hexObjectId reviewRequest
       (expiredStore\<lparr>sessions := [reviewableSession\<lparr>status := Active\<rparr>]\<rparr>) =
     Inl OnlyAfterSessionEnded"
proof -
  have c: "hexObjectId respeltId = hexObjectId (rrSessionId reviewRequest)"
    by (simp add: hexObjectId_def respeltId_def reviewRequest_def isHexDigit_def lowerHex_def)
  have n: "respeltId \<noteq> rrSessionId reviewRequest" "respeltId \<noteq> []"
    "findReview respeltId expiredStore = None" "reviews expiredStore = []"
    "rrSessionId reviewRequest = ''64b7f1a2c3d4e5f6a7b8c9d0''"
    "respeltId = ''64B7F1A2C3D4E5F6A7B8C9D0''"
    by (simp_all add: respeltId_def reviewRequest_def findReview_def expiredStore_def)
  have act: "submitReview hexObjectId reviewRequest
       (expiredStore\<lparr>sessions := [reviewableSession\<lparr>status := Active\<rparr>]\<rparr>) =
     Inl OnlyAfterSessionEnded"
    by (simp add: submitReview_def reviewSchemaOk_def reviewRequest_def hexObjectId_def
          isHexDigit_def lowerHex_def findReviewedSession_def expiredStore_def
          reviewableSession_def runningSession_def bookedSession_def)
  obtain r db' where b: "submitReview hexObjectId reviewRequest expiredStore = Inr (r, db')"
    by (simp add: submitReview_def reviewSchemaOk_def reviewRequest_def hexObjectId_def
          isHexDigit_def lowerHex_def findReviewedSession_def expiredStore_def
          reviewableSession_def runningSession_def bookedSession_def findReview_def Let_def)
  from submitReview_accepts_only(6) [OF b]
  have again: "submitReview hexObjectId reviewRequest db' = Inl AlreadyReviewed" .
  from respelt_session_id_is_reviewed_twice [OF b c n(1,2,3)]
  obtain r' where
    "submitReview hexObjectId (reviewRequest\<lparr>rrSessionId := respeltId\<rparr>) db' =
       Inr (r', expiredStore\<lparr>reviews := reviews expiredStore @ [r, r']\<rparr>)"
    and "reviewSessionId r = rrSessionId reviewRequest" and "reviewSessionId r' = respeltId"
    by blast
  with n(4,5,6) b again have "\<exists>r r' db'.
      submitReview hexObjectId reviewRequest expiredStore = Inr (r, db') \<and>
      submitReview hexObjectId reviewRequest db' = Inl AlreadyReviewed \<and>
      submitReview hexObjectId (reviewRequest\<lparr>rrSessionId := respeltId\<rparr>) db' =
        Inr (r', expiredStore\<lparr>reviews := [r, r']\<rparr>) \<and>
      reviewSessionId r = ''64b7f1a2c3d4e5f6a7b8c9d0'' \<and>
      reviewSessionId r' = ''64B7F1A2C3D4E5F6A7B8C9D0''"
    by (intro exI [of _ r] exI [of _ r'] exI [of _ db']) simp
  with c act show ?thesis by simp
qed

section \<open>The room a chat message reaches\<close>


text \<open>
  The \<^verbatim>\<open>message:send\<close> handler of the websocket service has the same shape: when
  \<^verbatim>\<open>addMessage\<close> does not raise, the event goes to the whole room.
\<close>

lemma messageSend_reaches_room:
  "(\<exists>e. messageSend addMessage rs now socket token words kind db =
           [Emit {socket} ''error'' (ErrorBody e)]) \<or>
   (\<exists>s s'.
       findBySessionToken token db = Some s \<and>
       addMessage \<lparr>mdSessionId = sid s, mdMessage = words, mdSenderType = kind,
                    mdTimestamp = now\<rparr> s = Inr s' \<and>
       messageSend addMessage rs now socket token words kind db =
         [SaveSession s',
          Emit (rs (consultationRoom (sid s))) ''message:received''
            (DataBody \<lparr>mdSessionId = sid s, mdMessage = words, mdSenderType = kind,
                       mdTimestamp = now\<rparr>)])"
  by (auto simp add: messageSend_def ioTo_def Let_def split: option.splits sum.splits)

text \<open>A call signal, by contrast, is forwarded to the room without the sender.\<close>

lemma consultationSignal_excludes_sender:
  "consultationSignal rs sock i signal db = [] \<or>
   consultationSignal rs sock i signal db =
     [Emit (rs (consultationRoom i) - {socketId sock}) ''consultation:signal''
        (SignalBody signal)]"
  by (simp add: consultationSignal_def socketTo_def split: option.split)

end
